theory Spec2Isabelle
  imports Main
begin

section \<open>Python values, errors and the provider\<close>

text \<open>
  The backend of the live-shopping demo is the Django code of \<open>BLOG.md\<close>: the adapter
  \<open>DyteAPIClient\<close>, the model \<open>LiveVideoRequest\<close>, its serializers and the four view methods
  of \<open>LiveVideoRequestViewSet\<close>. The code is dynamically typed: what comes out of a decoded
  JSON document, what is put into a request and what is assigned to a model attribute are
  Python objects. They are modelled by one universe of values: the values of a decoded JSON
  document (numbers are the integers; floating point numbers are left out) and the UUID
  objects of the model fields.
\<close>

datatype uuid = UUID int
  \<comment> \<open>\<open>uuid.UUID\<close>, identified by its integer value\<close>

datatype pyval =
    PNone
  | PBool bool
  | PInt int
  | PStr string
  | PList "pyval list"
  | PDict "(string \<times> pyval) list"
  | PUuid uuid

record response =
  status_code :: nat
  location :: "string option"
  \<comment> \<open>the header \<open>Location\<close>; \<open>None\<close> when the answer has none\<close>
  body :: "pyval option"
  \<comment> \<open>the decoded JSON document of the body; \<open>None\<close> when the body is not JSON\<close>

datatype error =
    HTTPError response
    \<comment> \<open>raised by \<open>response.raise_for_status()\<close>; it carries the response\<close>
  | ConnectionError
  | TooManyRedirects
  | JSONDecodeError
  | KeyError string
  | TypeError
  | Http404
  | MultipleObjectsReturned
  | ValidationError
  | IntegrityError

record request =
  http_method :: string
  url :: "pyval list"
  \<comment> \<open>the path handed to \<open>_create_url\<close>: the pieces of the f-string, literal text as \<open>PStr\<close>\<close>
  json :: "pyval option"

datatype status_choices = PENDING | ACTIVE | DONE

record live_video_request =
  pk :: int
  user_email :: string
  user_name :: string
  user_dyte_participant_id :: uuid
  dyte_meeting_id :: uuid
  support_user :: "int option"
  support_user_dyte_participant_id :: "uuid option"
  status :: status_choices
  feedback :: string
  product :: pyval

text \<open>
  The world a view method runs in: the table of \<open>LiveVideoRequest\<close> rows, the responses the
  provider is going to give (one per request that reaches it, in order; when none is left
  the connection fails), and the log of the requests that the adapter has handed to the
  session so far. The requests that the session sends by itself when it follows a
  redirect are not in the log.
\<close>

record world =
  rows :: "live_video_request list"
  script :: "response list"
  calls :: "request list"

type_synonym 'a action = "world \<Rightarrow> (error + 'a) \<times> world"

text \<open>\<open>d[key]\<close>: a dictionary raises \<open>KeyError\<close> on a missing key, any other value of the
  universe is not subscriptable by a string.\<close>

definition subscript :: "pyval \<Rightarrow> string \<Rightarrow> error + pyval" where
  "subscript d key =
     (case d of
        PDict kv \<Rightarrow> (case map_of kv key of None \<Rightarrow> Inl (KeyError key) | Some v \<Rightarrow> Inr v)
      | _ \<Rightarrow> Inl TypeError)"

section \<open>The adapter: DyteAPIClient\<close>

text \<open>\<open>raise_for_status\<close> of the requests library raises for the client and server error
  classes, 400 to 599, and for no other status code.\<close>

definition raise_for_status :: "response \<Rightarrow> error + unit" where
  "raise_for_status r =
     (if 400 \<le> status_code r \<and> status_code r < 600 then Inl (HTTPError r) else Inr ())"

definition response_json :: "response \<Rightarrow> error + pyval" where
  "response_json r = (case body r of None \<Rightarrow> Inl JSONDecodeError | Some j \<Rightarrow> Inr j)"

text \<open>
  \<open>session.send(prepared_request)\<close> of the requests library follows redirects, since
  \<open>allow_redirects\<close> is true when it is not given: an answer with one of the status codes
  301, 302, 303, 307, 308 and a header \<open>Location\<close> that is not empty is followed by a
  request to that location, and the answer to the last request is the result. More than
  30 redirects raise \<open>TooManyRedirects\<close>. The argument \<open>n\<close> of \<open>resolve_redirects\<close> is the
  number of redirects followed so far. The result comes with the responses that the
  provider has still to give.
\<close>

definition is_redirect :: "response \<Rightarrow> bool" where
  "is_redirect r = (location r \<noteq> None \<and> status_code r \<in> {301, 302, 303, 307, 308})"

definition get_redirect_target :: "response \<Rightarrow> string option" where
  "get_redirect_target r = (if is_redirect r then location r else None)"

fun resolve_redirects ::
  "nat \<Rightarrow> response \<Rightarrow> response list \<Rightarrow> (error + response) \<times> response list" where
  "resolve_redirects n resp [] =
     (case get_redirect_target resp of
        Some (c # cs) \<Rightarrow>
          if 30 \<le> n then (Inl TooManyRedirects, []) else (Inl ConnectionError, [])
      | _ \<Rightarrow> (Inr resp, []))"
| "resolve_redirects n resp (r # rest) =
     (case get_redirect_target resp of
        Some (c # cs) \<Rightarrow>
          if 30 \<le> n then (Inl TooManyRedirects, r # rest)
          else resolve_redirects (Suc n) r rest
      | _ \<Rightarrow> (Inr resp, r # rest))"

definition session_send :: "response list \<Rightarrow> (error + response) \<times> response list" where
  "session_send sc =
     (case sc of
        [] \<Rightarrow> (Inl ConnectionError, [])
      | resp # rest \<Rightarrow> resolve_redirects 0 resp rest)"

text \<open>
  \<open>_fetch\<close>: the request is sent; an error status of the response raises, and otherwise
  the field \<open>data\<close> of the decoded body is returned.
\<close>

definition fetch :: "request \<Rightarrow> pyval action" where
  "fetch req w =
     (let w1 = w\<lparr>calls := calls w @ [req]\<rparr> in
      case session_send (script w) of
        (Inl e, sc) \<Rightarrow> (Inl e, w1\<lparr>script := sc\<rparr>)
      | (Inr resp, sc) \<Rightarrow>
          (let w2 = w1\<lparr>script := sc\<rparr> in
           case raise_for_status resp of
             Inl e \<Rightarrow> (Inl e, w2)
           | Inr _ \<Rightarrow>
               (case response_json resp of
                  Inl e \<Rightarrow> (Inl e, w2)
                | Inr j \<Rightarrow> (subscript j ''data'', w2))))"

definition create_meeting :: "pyval \<Rightarrow> pyval \<Rightarrow> pyval \<Rightarrow> pyval action" where
  "create_meeting title preferred_region record_on_start =
     fetch \<lparr>http_method = ''POST'', url = [PStr ''meetings''],
            json = Some (PDict [(''title'', title),
                                (''preferred_region'', preferred_region),
                                (''record_on_start'', record_on_start)])\<rparr>"

definition add_participant :: "pyval \<Rightarrow> pyval \<Rightarrow> pyval \<Rightarrow> pyval \<Rightarrow> pyval action" where
  "add_participant meeting_id name preset_name custom_participant_id =
     fetch \<lparr>http_method = ''POST'', url = [PStr ''meetings/'', meeting_id, PStr ''/participants''],
            json = Some (PDict [(''name'', name),
                                (''preset_name'', preset_name),
                                (''custom_participant_id'', custom_participant_id)])\<rparr>"

definition refresh_participant_token :: "pyval \<Rightarrow> pyval \<Rightarrow> pyval action" where
  "refresh_participant_token meeting_id participant_id =
     fetch \<lparr>http_method = ''POST'',
            url = [PStr ''meetings/'', meeting_id, PStr ''/participants/'', participant_id,
                   PStr ''/token''],
            json = None\<rparr>"

section \<open>Library behaviour the views rely on\<close>

text \<open>
  Leaf functions of the libraries, taken as parameters: what a serializer field of Django
  REST framework makes of a value that is present in the payload (the messages of its
  validation error, or the internal value), and the conversion \<open>uuid.UUID(...)\<close> that
  \<open>UUIDField.to_python\<close> applies to a value that is neither \<open>None\<close> nor a UUID already
  (\<open>None\<close> when it raises). Every theorem below holds for all of them.
\<close>

record lib =
  email_field :: "pyval \<Rightarrow> string list + string"
  char_field :: "nat option \<Rightarrow> pyval \<Rightarrow> string list + string"
  integer_field :: "pyval \<Rightarrow> string list + int"
  url_field :: "pyval \<Rightarrow> string list + string"
  uuid_of :: "pyval \<Rightarrow> uuid option"

definition to_python :: "lib \<Rightarrow> pyval \<Rightarrow> error + uuid option" where
  "to_python L v =
     (case v of
        PNone \<Rightarrow> Inr None
      | PUuid u \<Rightarrow> Inr (Some u)
      | _ \<Rightarrow> (case uuid_of L v of None \<Rightarrow> Inl ValidationError | Some u \<Rightarrow> Inr (Some u)))"

subsection \<open>The table of LiveVideoRequest rows\<close>

definition objects_filter :: "status_choices \<Rightarrow> world \<Rightarrow> live_video_request list" where
  "objects_filter st w = filter (\<lambda>r. status r = st) (rows w)"

text \<open>
  \<open>get_object_or_404(LiveVideoRequest, pk=pk)\<close> is \<open>QuerySet.get\<close> on the primary key, with
  \<open>DoesNotExist\<close> turned into \<open>Http404\<close>; the key of the URL is taken as the integer it
  denotes.
\<close>

definition get_object_or_404 :: "int \<Rightarrow> world \<Rightarrow> error + live_video_request" where
  "get_object_or_404 k w =
     (case filter (\<lambda>r. pk r = k) (rows w) of
        [] \<Rightarrow> Inl Http404
      | [r] \<Rightarrow> Inr r
      | _ \<Rightarrow> Inl MultipleObjectsReturned)"

text \<open>The key that the database gives to a new row: the next one above the keys in use.\<close>

definition fresh_pk :: "live_video_request list \<Rightarrow> int" where
  "fresh_pk rs = 1 + fold max (map pk rs) 0"

text \<open>
  \<open>LiveVideoRequest.objects.create(...)\<close>: both identifiers go through
  \<open>UUIDField.to_python\<close>; the columns are \<open>NOT NULL\<close> and \<open>unique\<close>, so a missing or an
  already stored identifier is refused by the database. \<open>feedback\<close> gets the empty string,
  \<open>support_user\<close> and \<open>support_user_dyte_participant_id\<close> are null.
\<close>

definition objects_create ::
  "lib \<Rightarrow> pyval \<Rightarrow> string \<Rightarrow> string \<Rightarrow> status_choices \<Rightarrow> pyval \<Rightarrow> pyval \<Rightarrow>
   live_video_request action" where
  "objects_create L meeting_id name email st participant_id product_json w =
     (case to_python L participant_id of
        Inl e \<Rightarrow> (Inl e, w)
      | Inr p \<Rightarrow>
          (case to_python L meeting_id of
             Inl e \<Rightarrow> (Inl e, w)
           | Inr m \<Rightarrow>
               (case (p, m) of
                  (Some p', Some m') \<Rightarrow>
                    if p' \<in> set (map user_dyte_participant_id (rows w))
                       \<or> m' \<in> set (map dyte_meeting_id (rows w))
                    then (Inl IntegrityError, w)
                    else
                      (let r = \<lparr>pk = fresh_pk (rows w), user_email = email, user_name = name,
                                user_dyte_participant_id = p', dyte_meeting_id = m',
                                support_user = None, support_user_dyte_participant_id = None,
                                status = st, feedback = [], product = product_json\<rparr>
                       in (Inr r, w\<lparr>rows := rows w @ [r]\<rparr>))
                | _ \<Rightarrow> (Inl IntegrityError, w))))"

text \<open>\<open>instance.save()\<close> writes the fields of the instance to the row that has its key.\<close>

definition save :: "live_video_request \<Rightarrow> world \<Rightarrow> world" where
  "save r w = w\<lparr>rows := map (\<lambda>x. if pk x = pk r then r else x) (rows w)\<rparr>"

subsection \<open>Serializers\<close>

record product_data =
  vd_id :: int
  vd_title :: string
  vd_image :: string

record validated_data =
  vd_feedback :: "string option"
  vd_product :: product_data
  vd_user_email :: string
  vd_user_name :: string

definition required_msg :: string where
  "required_msg = ''This field is required.''"

definition null_msg :: string where
  "null_msg = ''This field may not be null.''"

definition no_data_msg :: string where
  "no_data_msg = ''No data provided''"

definition type_name :: "pyval \<Rightarrow> string" where
  "type_name v =
     (case v of
        PNone \<Rightarrow> ''NoneType''
      | PBool _ \<Rightarrow> ''bool''
      | PInt _ \<Rightarrow> ''int''
      | PStr _ \<Rightarrow> ''str''
      | PList _ \<Rightarrow> ''list''
      | PDict _ \<Rightarrow> ''dict''
      | PUuid _ \<Rightarrow> ''UUID'')"

definition invalid_msg :: "pyval \<Rightarrow> string" where
  "invalid_msg v = ''Invalid data. Expected a dictionary, but got '' @ type_name v @ ''.''"

text \<open>
  How a serializer treats one required field: a field that is missing from the payload is
  an error; a value that is present goes through the validation of the field, the
  parameter \<open>f\<close>. The errors of a serializer map the name of each refused field to its
  messages.
\<close>

definition run_field ::
  "(pyval \<Rightarrow> string list + 'a) \<Rightarrow> (string \<times> pyval) list \<Rightarrow> string \<Rightarrow> pyval + 'a" where
  "run_field f kv name =
     (case map_of kv name of
        None \<Rightarrow> Inl (PList [PStr required_msg])
      | Some v \<Rightarrow> (case f v of Inl ms \<Rightarrow> Inl (PList (map PStr ms)) | Inr x \<Rightarrow> Inr x))"

definition field_errors :: "string \<Rightarrow> pyval + 'a \<Rightarrow> (string \<times> pyval) list" where
  "field_errors name r = (case r of Inl e \<Rightarrow> [(name, e)] | Inr _ \<Rightarrow> [])"

definition ProductSerializer :: "lib \<Rightarrow> pyval \<Rightarrow> pyval + product_data" where
  "ProductSerializer L v =
     (case v of
        PDict kv \<Rightarrow>
          (let r_id = run_field (integer_field L) kv ''id'';
               r_title = run_field (char_field L None) kv ''title'';
               r_image = run_field (url_field L) kv ''image''
           in case (r_id, r_title, r_image) of
                (Inr i, Inr t, Inr im) \<Rightarrow> Inr \<lparr>vd_id = i, vd_title = t, vd_image = im\<rparr>
              | _ \<Rightarrow> Inl (PDict (field_errors ''id'' r_id @ field_errors ''title'' r_title
                                  @ field_errors ''image'' r_image)))
      | _ \<Rightarrow> Inl (PDict [(''non_field_errors'', PList [PStr (invalid_msg v)])]))"

text \<open>
  \<open>LiveVideoRequestSerializer(data=data)\<close>: of the model's fields only \<open>user_email\<close> and
  \<open>user_name\<close> are writable (the others are read-only), \<open>feedback\<close> is declared optional and
  \<open>product\<close> is the nested \<open>ProductSerializer\<close>. The result is \<open>serializer.errors\<close> when
  \<open>is_valid()\<close> is false and \<open>serializer.validated_data\<close> when it is true.
\<close>

definition LiveVideoRequestSerializer :: "lib \<Rightarrow> pyval \<Rightarrow> pyval + validated_data" where
  "LiveVideoRequestSerializer L data =
     (case data of
        PDict kv \<Rightarrow>
          (let r_feedback =
                 (case map_of kv ''feedback'' of
                    None \<Rightarrow> Inr None
                  | Some v \<Rightarrow>
                      (case char_field L None v of
                         Inl ms \<Rightarrow> Inl (PList (map PStr ms))
                       | Inr x \<Rightarrow> Inr (Some x)));
               r_product =
                 (case map_of kv ''product'' of
                    None \<Rightarrow> Inl (PList [PStr required_msg])
                  | Some PNone \<Rightarrow> Inl (PList [PStr null_msg])
                  | Some v \<Rightarrow> ProductSerializer L v);
               r_email = run_field (email_field L) kv ''user_email'';
               r_name = run_field (char_field L (Some 128)) kv ''user_name''
           in case (r_feedback, r_product, r_email, r_name) of
                (Inr f, Inr p, Inr e, Inr n) \<Rightarrow>
                  Inr \<lparr>vd_feedback = f, vd_product = p, vd_user_email = e, vd_user_name = n\<rparr>
              | _ \<Rightarrow> Inl (PDict (field_errors ''feedback'' r_feedback
                                  @ field_errors ''product'' r_product
                                  @ field_errors ''user_email'' r_email
                                  @ field_errors ''user_name'' r_name)))
      | PNone \<Rightarrow> Inl (PDict [(''non_field_errors'', PList [PStr no_data_msg])])
      | _ \<Rightarrow> Inl (PDict [(''non_field_errors'', PList [PStr (invalid_msg data)])]))"

section \<open>The views: LiveVideoRequestViewSet\<close>

datatype payload =
    Serialized live_video_request
    \<comment> \<open>\<open>LiveVideoRequestSerializer(instance).data\<close>\<close>
  | SerializedMany "live_video_request list"
  | Payload pyval

datatype drf_response = Response payload nat

definition create :: "lib \<Rightarrow> pyval \<Rightarrow> drf_response action" where
  "create L data w =
     (case LiveVideoRequestSerializer L data of
        Inl errors \<Rightarrow> (Inr (Response (Payload errors) 400), w)
      | Inr v \<Rightarrow>
          (case create_meeting (PStr (''Live shopping for: '' @ vd_title (vd_product v)))
                  (PStr ''ap-south-1'') (PBool False) w of
             (Inl e, w1) \<Rightarrow> (Inl e, w1)
           | (Inr dyte_meeting, w1) \<Rightarrow>
               (case subscript dyte_meeting ''id'' of
                  Inl e \<Rightarrow> (Inl e, w1)
                | Inr meeting_id \<Rightarrow>
                    (case add_participant meeting_id (PStr (vd_user_name v))
                            (PStr ''video_shoping'') (PStr (vd_user_email v)) w1 of
                       (Inl e, w2) \<Rightarrow> (Inl e, w2)
                     | (Inr participant, w2) \<Rightarrow>
                         (case subscript participant ''id'' of
                            Inl e \<Rightarrow> (Inl e, w2)
                          | Inr participant_id \<Rightarrow>
                              (case subscript data ''product'' of
                                 Inl e \<Rightarrow> (Inl e, w2)
                               | Inr product_json \<Rightarrow>
                                   (case objects_create L meeting_id (vd_user_name v)
                                           (vd_user_email v) PENDING participant_id product_json w2 of
                                      (Inl e, w3) \<Rightarrow> (Inl e, w3)
                                    | (Inr live_request, w3) \<Rightarrow>
                                        (Inr (Response (Serialized live_request) 201), w3))))))))"

text \<open>The view method \<open>list\<close>.\<close>

definition list_view :: "drf_response action" where
  "list_view w = (Inr (Response (SerializedMany (objects_filter PENDING w)) 200), w)"

text \<open>
  In \<open>start\<close> the attribute is assigned the value of \<open>participant["id"]\<close> and \<open>save()\<close> converts
  it with \<open>UUIDField.to_python\<close>; \<open>participant["token"]\<close> is read after the row is saved. A
  row read from the table holds \<open>None\<close> or a UUID object in
  \<open>support_user_dyte_participant_id\<close>, and every UUID object is true in a condition.
\<close>

definition start :: "lib \<Rightarrow> int \<Rightarrow> drf_response action" where
  "start L k w =
     (case get_object_or_404 k w of
        Inl e \<Rightarrow> (Inl e, w)
      | Inr live_request \<Rightarrow>
          (case support_user_dyte_participant_id live_request of
             Some support_id \<Rightarrow>
               (case refresh_participant_token (PUuid (dyte_meeting_id live_request))
                       (PUuid support_id) w of
                  (Inl e, w1) \<Rightarrow> (Inl e, w1)
                | (Inr token, w1) \<Rightarrow>
                    (case subscript token ''token'' of
                       Inl e \<Rightarrow> (Inl e, w1)
                     | Inr t \<Rightarrow>
                         (Inr (Response (Payload (PDict [(''dyte_auth_token'', t)])) 200), w1)))
           | None \<Rightarrow>
               (case add_participant (PUuid (dyte_meeting_id live_request))
                       (PStr ''Customer Support'') (PStr ''video_shoping'')
                       (PStr ''customer_support'') w of
                  (Inl e, w1) \<Rightarrow> (Inl e, w1)
                | (Inr participant, w1) \<Rightarrow>
                    (case subscript participant ''id'' of
                       Inl e \<Rightarrow> (Inl e, w1)
                     | Inr participant_id \<Rightarrow>
                         (case to_python L participant_id of
                            Inl e \<Rightarrow> (Inl e, w1)
                          | Inr support_id \<Rightarrow>
                              (let w2 = save (live_request
                                                \<lparr>support_user_dyte_participant_id := support_id,
                                                 status := ACTIVE\<rparr>) w1
                               in case subscript participant ''token'' of
                                    Inl e \<Rightarrow> (Inl e, w2)
                                  | Inr t \<Rightarrow>
                                      (Inr (Response (Payload (PDict [(''dyte_auth_token'', t)]))
                                              201), w2)))))))"

definition user_token :: "int \<Rightarrow> drf_response action" where
  "user_token k w =
     (case get_object_or_404 k w of
        Inl e \<Rightarrow> (Inl e, w)
      | Inr live_request \<Rightarrow>
          (case refresh_participant_token (PUuid (dyte_meeting_id live_request))
                  (PUuid (user_dyte_participant_id live_request)) w of
             (Inl e, w1) \<Rightarrow> (Inl e, w1)
           | (Inr token, w1) \<Rightarrow>
               (case subscript token ''token'' of
                  Inl e \<Rightarrow> (Inl e, w1)
                | Inr t \<Rightarrow>
                    (Inr (Response (Payload (PDict [(''dyte_auth_token'', t)])) 200), w1))))"

subsection \<open>Runs of the service\<close>

datatype operation = Create pyval | ListPending | Start int | GetUserToken int

fun step :: "lib \<Rightarrow> operation \<Rightarrow> drf_response action" where
  "step L (Create data) = create L data"
| "step L ListPending = list_view"
| "step L (Start k) = start L k"
| "step L (GetUserToken k) = user_token k"

text \<open>The states the four operations can reach from an empty table, whatever the provider
  answers.\<close>

inductive reachable :: "lib \<Rightarrow> world \<Rightarrow> bool" for L :: lib where
  initial: "reachable L \<lparr>rows = [], script = sc, calls = []\<rparr>"
| after: "reachable L w \<Longrightarrow> reachable L (snd (step L operation w))"

section \<open>Vocabulary of the properties\<close>

text \<open>
  A response of the provider that is a success in the sense of HTTP (a status code of the
  class 2xx) and whose body is a JSON envelope with the field \<open>data\<close>.
\<close>

definition success :: "response \<Rightarrow> pyval \<Rightarrow> bool" where
  "success resp d =
     (200 \<le> status_code resp \<and> status_code resp < 300
      \<and> (case body resp of Some (PDict env) \<Rightarrow> map_of env ''data'' = Some d | _ \<Rightarrow> False))"

text \<open>
  What makes a create payload invalid, in terms of the payload alone. A required field is
  refused when it is missing from the payload or when the validation of the field refuses
  its value. A product blob is malformed when it is not a dictionary (null included) or
  when one of \<open>id\<close>, \<open>title\<close>, \<open>image\<close> is refused. The fields at fault of a payload that
  is a dictionary: \<open>user_email\<close>, \<open>user_name\<close> refused, \<open>product\<close> missing or malformed, a
  \<open>feedback\<close> that is given and refused. A payload is invalid when it is not a dictionary or
  has a field at fault.
\<close>

definition refused ::
  "(pyval \<Rightarrow> string list + 'a) \<Rightarrow> (string \<times> pyval) list \<Rightarrow> string \<Rightarrow> bool" where
  "refused f kv name = (case map_of kv name of None \<Rightarrow> True | Some v \<Rightarrow> isl (f v))"

definition product_fault :: "lib \<Rightarrow> (string \<times> pyval) list \<Rightarrow> string \<Rightarrow> bool" where
  "product_fault L kv name =
     (if name = ''id'' then refused (integer_field L) kv name
      else if name = ''title'' then refused (char_field L None) kv name
      else if name = ''image'' then refused (url_field L) kv name
      else False)"

definition malformed_product :: "lib \<Rightarrow> pyval \<Rightarrow> bool" where
  "malformed_product L v =
     (case v of
        PDict kv \<Rightarrow>
          product_fault L kv ''id'' \<or> product_fault L kv ''title'' \<or> product_fault L kv ''image''
      | _ \<Rightarrow> True)"

definition offending :: "lib \<Rightarrow> (string \<times> pyval) list \<Rightarrow> string \<Rightarrow> bool" where
  "offending L kv name =
     (if name = ''feedback'' then
        (case map_of kv name of None \<Rightarrow> False | Some v \<Rightarrow> isl (char_field L None v))
      else if name = ''product'' then
        (case map_of kv name of None \<Rightarrow> True | Some v \<Rightarrow> malformed_product L v)
      else if name = ''user_email'' then refused (email_field L) kv name
      else if name = ''user_name'' then refused (char_field L (Some 128)) kv name
      else False)"

definition invalid_payload :: "lib \<Rightarrow> pyval \<Rightarrow> bool" where
  "invalid_payload L data =
     (case data of
        PDict kv \<Rightarrow>
          offending L kv ''feedback'' \<or> offending L kv ''product''
          \<or> offending L kv ''user_email'' \<or> offending L kv ''user_name''
      | _ \<Rightarrow> True)"

subsection \<open>An instance of the library parameters and sample data\<close>

text \<open>
  For running the model on examples: fields that accept strings (an email address needs
  an \<open>@\<close>) and integers, and a UUID conversion that reads 32 hexadecimal digits, hyphens
  ignored.
\<close>

definition hex_digit :: "char \<Rightarrow> int option" where
  "hex_digit c =
     (let n = (of_char c :: nat) in
      if 48 \<le> n \<and> n \<le> 57 then Some (int n - 48)
      else if 97 \<le> n \<and> n \<le> 102 then Some (int n - 87)
      else None)"

fun hex_value :: "string \<Rightarrow> int \<Rightarrow> int option" where
  "hex_value [] acc = Some acc"
| "hex_value (c # cs) acc =
     (case hex_digit c of None \<Rightarrow> None | Some d \<Rightarrow> hex_value cs (16 * acc + d))"

definition example_lib :: lib where
  "example_lib =
     \<lparr>email_field = (\<lambda>v. case v of PStr s \<Rightarrow> if CHR ''@'' \<in> set s then Inr s
                                                 else Inl [''Enter a valid email address.'']
                                  | _ \<Rightarrow> Inl [''Enter a valid email address.'']),
      char_field = (\<lambda>n v. case v of PStr s \<Rightarrow> Inr s | _ \<Rightarrow> Inl [''Not a valid string.'']),
      integer_field = (\<lambda>v. case v of PInt i \<Rightarrow> Inr i | _ \<Rightarrow> Inl [''A valid integer is required.'']),
      url_field = (\<lambda>v. case v of PStr s \<Rightarrow> Inr s | _ \<Rightarrow> Inl [''Enter a valid URL.'']),
      uuid_of = (\<lambda>v. case v of
                        PStr s \<Rightarrow> (let h = filter (\<lambda>c. c \<noteq> CHR ''-'') s in
                                   if length h = 32 then map_option UUID (hex_value h 0) else None)
                      | _ \<Rightarrow> None)\<rparr>"

definition example_payload :: pyval where
  "example_payload =
     PDict [(''user_name'', PStr ''Alice''), (''user_email'', PStr ''alice@x.com''),
            (''product'', PDict [(''id'', PInt 1), (''title'', PStr ''Shoes''),
                                 (''image'', PStr ''https://x.com/shoes.png'')])]"

definition example_row :: live_video_request where
  "example_row =
     \<lparr>pk = 1, user_email = ''alice@x.com'', user_name = ''Alice'',
      user_dyte_participant_id = UUID 2, dyte_meeting_id = UUID 1,
      support_user = None, support_user_dyte_participant_id = None,
      status = PENDING, feedback = [],
      product = PDict [(''id'', PInt 1), (''title'', PStr ''Shoes''),
                       (''image'', PStr ''https://x.com/shoes.png'')]\<rparr>"

definition example_active_row :: live_video_request where
  "example_active_row =
     example_row\<lparr>pk := 2, user_dyte_participant_id := UUID 5, dyte_meeting_id := UUID 4,
                  support_user_dyte_participant_id := Some (UUID 6), status := ACTIVE\<rparr>"

definition example_done_row :: live_video_request where
  "example_done_row = example_active_row\<lparr>status := DONE\<rparr>"

definition ok_response :: "(string \<times> pyval) list \<Rightarrow> response" where
  "ok_response d = \<lparr>status_code = 200, location = None, body = Some (PDict [(''success'', PBool True), (''data'', PDict d)])\<rparr>"

definition meeting_response :: response where
  "meeting_response = ok_response [(''id'', PStr ''00000000-0000-0000-0000-000000000001'')]"

definition participant_response :: response where
  "participant_response = ok_response [(''id'', PStr ''00000000-0000-0000-0000-000000000002''),
                                       (''token'', PStr ''token-U'')]"

definition join_response :: response where
  "join_response = ok_response [(''id'', PStr ''00000000-0000-0000-0000-000000000003''),
                                (''token'', PStr ''token-A'')]"

definition token_response :: "string \<Rightarrow> response" where
  "token_response t = ok_response [(''token'', PStr t)]"

definition create_meeting_request :: request where
  "create_meeting_request =
     \<lparr>http_method = ''POST'', url = [PStr ''meetings''],
      json = Some (PDict [(''title'', PStr ''Live shopping for: Shoes''),
                          (''preferred_region'', PStr ''ap-south-1''),
                          (''record_on_start'', PBool False)])\<rparr>"

definition add_customer_request :: request where
  "add_customer_request =
     \<lparr>http_method = ''POST'',
      url = [PStr ''meetings/'', PStr ''00000000-0000-0000-0000-000000000001'',
             PStr ''/participants''],
      json = Some (PDict [(''name'', PStr ''Alice''),
                          (''preset_name'', PStr ''video_shoping''),
                          (''custom_participant_id'', PStr ''alice@x.com'')])\<rparr>"

definition refresh_customer_request :: request where
  "refresh_customer_request =
     \<lparr>http_method = ''POST'',
      url = [PStr ''meetings/'', PUuid (UUID 1), PStr ''/participants/'', PUuid (UUID 2),
             PStr ''/token''],
      json = None\<rparr>"

definition not_found_response :: response where
  "not_found_response = \<lparr>status_code = 404, location = None, body = None\<rparr>"

definition redirect_response :: response where
  "redirect_response =
     \<lparr>status_code = 302, location = Some ''https://api.dyte.io/v2/meetings'', body = None\<rparr>"

definition unavailable_response :: response where
  "unavailable_response = \<lparr>status_code = 503, location = None, body = None\<rparr>"

definition incomplete_payload :: pyval where
  "incomplete_payload =
     PDict [(''user_name'', PStr ''Alice''),
            (''product'', PDict [(''id'', PInt 1), (''image'', PStr ''https://x.com/shoes.png'')])]"

definition junk_payload :: pyval where
  "junk_payload =
     PDict [(''user_name'', PStr ''Alice''), (''user_email'', PStr ''alice@x.com''),
            (''product'', PStr ''junk'')]"

section \<open>Facts about the adapter and the table\<close>

lemma fetch_world:
  "snd (fetch req w)
   = w\<lparr>calls := calls w @ [req], script := snd (session_send (script w))\<rparr>"
  by (simp add: fetch_def Let_def split: prod.splits sum.splits)

lemma session_send_final:
  assumes "\<not> is_redirect resp"
  shows "session_send (resp # rest) = (Inr resp, rest)"
proof -
  from assms have "resolve_redirects n resp rest = (Inr resp, rest)" for n
    by (cases rest) (simp_all add: get_redirect_target_def)
  then show ?thesis by (simp add: session_send_def)
qed

lemma success_final:
  assumes "success resp d"
  shows "session_send (resp # rest) = (Inr resp, rest)"
proof -
  from assms have "\<not> is_redirect resp"
    by (auto simp: success_def is_redirect_def)
  then show ?thesis by (rule session_send_final)
qed

lemma fetch_rows: "fetch req v = (x, w1) \<Longrightarrow> rows w1 = rows v"
  using fetch_world [of req v] by simp

lemma fetch_success:
  assumes "script w = resp # rest" and "success resp d"
  shows "fetch req w = (Inr d, w\<lparr>calls := calls w @ [req], script := rest\<rparr>)"
  using assms success_final [OF assms(2), of rest]
  by (auto simp: fetch_def success_def raise_for_status_def response_json_def subscript_def Let_def
      split: option.splits pyval.splits)

lemma get_object_absent:
  "k \<notin> set (map pk (rows w)) \<Longrightarrow> get_object_or_404 k w = Inl Http404"
proof -
  assume "k \<notin> set (map pk (rows w))"
  then have "filter (\<lambda>r. pk r = k) (rows w) = []"
    by (auto simp: filter_empty_conv)
  then show ?thesis by (simp add: get_object_or_404_def)
qed

lemma get_object_found:
  "get_object_or_404 k w = Inr r \<longleftrightarrow> filter (\<lambda>x. pk x = k) (rows w) = [r]"
  by (auto simp: get_object_or_404_def split: list.splits)

lemma filter_pk_replace:
  assumes "pk r' = k"
  shows "filter (\<lambda>x. pk x = k) (map (\<lambda>x. if pk x = k then r' else x) xs)
         = map (\<lambda>_. r') (filter (\<lambda>x. pk x = k) xs)"
  using assms by (induction xs) auto

lemma get_object_saved:
  assumes "get_object_or_404 k w = Inr r" and "pk r' = pk r"
  shows "get_object_or_404 k (save r' w) = Inr r'"
proof -
  from assms(1) have f: "filter (\<lambda>x. pk x = k) (rows w) = [r]"
    by (simp add: get_object_found)
  then have "r \<in> set (filter (\<lambda>x. pk x = k) (rows w))" by simp
  then have k: "pk r = k" by simp
  with assms(2) have "pk r' = k" by simp
  from filter_pk_replace [OF this, of "rows w"] f k assms(2)
  show ?thesis by (simp add: get_object_found save_def)
qed

lemma save_rows:
  "rows (save r' w) = map (\<lambda>x. if pk x = pk r' then r' else x) (rows w)"
  by (simp add: save_def)

lemma fold_max_ge: "(a::int) \<le> fold max xs a"
proof (induction xs arbitrary: a)
  case Nil
  then show ?case by simp
next
  case (Cons x xs)
  have "a \<le> max x a" by simp
  also have "\<dots> \<le> fold max xs (max x a)" by (rule Cons.IH)
  finally show ?case by simp
qed

lemma fold_max_mem: "(x::int) \<in> set xs \<Longrightarrow> x \<le> fold max xs a"
proof (induction xs arbitrary: a)
  case Nil
  then show ?case by simp
next
  case (Cons y ys)
  show ?case
  proof (cases "x = y")
    case True
    have "max y a \<le> fold max ys (max y a)" by (rule fold_max_ge)
    with True show ?thesis by simp
  next
    case False
    with Cons show ?thesis by simp
  qed
qed

lemma fresh_pk_bound: "x \<in> set rs \<Longrightarrow> pk x < fresh_pk rs"
  using fold_max_mem [of "pk x" "map pk rs" 0] by (simp add: fresh_pk_def)

lemma objects_create_rows:
  assumes "objects_create L m n e st p j w = (x, w')"
  shows "(\<exists>err. x = Inl err \<and> w' = w) \<or>
         (\<exists>r. x = Inr r \<and> rows w' = rows w @ [r] \<and> status r = st)"
  using assms
  by (auto simp: objects_create_def Let_def split: sum.splits option.splits if_splits)

lemma objects_create_row:
  assumes "objects_create L m n e st p j w = (Inr r, w')"
  shows "to_python L m = Inr (Some (dyte_meeting_id r))
         \<and> to_python L p = Inr (Some (user_dyte_participant_id r))
         \<and> rows w' = rows w @ [r] \<and> status r = st"
  using assms
  by (auto simp: objects_create_def Let_def split: sum.splits option.splits if_splits)

section \<open>Facts about the views\<close>

lemma create_meeting_rows: "create_meeting a b c w = (x, w1) \<Longrightarrow> rows w1 = rows w"
  by (auto simp: create_meeting_def dest: fetch_rows)

lemma add_participant_rows: "add_participant a b c d w = (x, w1) \<Longrightarrow> rows w1 = rows w"
  by (auto simp: add_participant_def dest: fetch_rows)

lemma create_serialized:
  assumes "create L data w = (Inr (Response (Serialized r) c), w')"
  shows "rows w' = rows w @ [r]"
  using assms
  by (auto simp: create_def split: sum.splits prod.splits
      dest!: objects_create_row create_meeting_rows add_participant_rows)

lemma create_rows:
  assumes "create L data w = (out, w')"
  shows "rows w' = rows w \<or>
         (\<exists>r. rows w' = rows w @ [r] \<and> status r = PENDING
              \<and> out = Inr (Response (Serialized r) 201))"
proof (cases "LiveVideoRequestSerializer L data")
  case (Inl errors)
  with assms show ?thesis by (simp add: create_def)
next
  case (Inr v)
  let ?cm = "create_meeting (PStr (''Live shopping for: '' @ vd_title (vd_product v)))
               (PStr ''ap-south-1'') (PBool False) w"
  obtain x1 w1 where cm: "?cm = (x1, w1)" by fastforce
  then have r1: "rows w1 = rows w"
    by (auto simp: create_meeting_def dest: fetch_rows)
  show ?thesis
  proof (cases "case x1 of Inl e \<Rightarrow> Inl e | Inr d \<Rightarrow> subscript d ''id''")
    case (Inl e)
    with assms Inr cm r1 show ?thesis
      by (auto simp: create_def split: sum.splits)
  next
    case mid: (Inr meeting_id)
    then obtain dyte_meeting where x1: "x1 = Inr dyte_meeting"
      and sub: "subscript dyte_meeting ''id'' = Inr meeting_id"
      by (auto split: sum.splits)
    let ?ap = "add_participant meeting_id (PStr (vd_user_name v)) (PStr ''video_shoping'')
                 (PStr (vd_user_email v)) w1"
    obtain x2 w2 where ap: "?ap = (x2, w2)" by fastforce
    then have r2: "rows w2 = rows w"
      using r1 by (auto simp: add_participant_def dest: fetch_rows)
    from assms Inr cm x1 sub ap r2 show ?thesis
      by (auto simp: create_def split: sum.splits prod.splits dest!: objects_create_rows)
  qed
qed

lemma create_success:
  assumes valid: "LiveVideoRequestSerializer L data = Inr v"
    and provider: "script w = resp1 # resp2 # rest"
      "success resp1 (PDict dyte_meeting)" "success resp2 (PDict participant)"
    and ids: "map_of dyte_meeting ''id'' = Some meeting_id"
      "map_of participant ''id'' = Some participant_id"
    and uuids: "to_python L meeting_id = Inr (Some m)" "to_python L participant_id = Inr (Some p)"
    and new: "m \<notin> set (map dyte_meeting_id (rows w))"
      "p \<notin> set (map user_dyte_participant_id (rows w))"
  shows "\<exists>r w'. create L data w = (Inr (Response (Serialized r) 201), w')
           \<and> rows w' = rows w @ [r]
           \<and> status r = PENDING \<and> dyte_meeting_id r = m \<and> user_dyte_participant_id r = p
           \<and> user_name r = vd_user_name v \<and> user_email r = vd_user_email v
           \<and> subscript data ''product'' = Inr (product r)
           \<and> support_user_dyte_participant_id r = None
           \<and> pk r \<notin> set (map pk (rows w))"
proof -
  let ?req1 = "\<lparr>http_method = ''POST'', url = [PStr ''meetings''],
                 json = Some (PDict [(''title'', PStr (''Live shopping for: '' @ vd_title (vd_product v))),
                                     (''preferred_region'', PStr ''ap-south-1''),
                                     (''record_on_start'', PBool False)])\<rparr>"
  let ?w1 = "w\<lparr>calls := calls w @ [?req1], script := resp2 # rest\<rparr>"
  let ?req2 = "\<lparr>http_method = ''POST'', url = [PStr ''meetings/'', meeting_id, PStr ''/participants''],
                 json = Some (PDict [(''name'', PStr (vd_user_name v)),
                                     (''preset_name'', PStr ''video_shoping''),
                                     (''custom_participant_id'', PStr (vd_user_email v))])\<rparr>"
  let ?w2 = "?w1\<lparr>calls := calls ?w1 @ [?req2], script := rest\<rparr>"
  have c1: "create_meeting (PStr (''Live shopping for: '' @ vd_title (vd_product v)))
              (PStr ''ap-south-1'') (PBool False) w = (Inr (PDict dyte_meeting), ?w1)"
    using fetch_success [OF provider(1,2), of ?req1] by (simp add: create_meeting_def)
  have s1: "script ?w1 = resp2 # rest" by simp
  have c2: "add_participant meeting_id (PStr (vd_user_name v)) (PStr ''video_shoping'')
              (PStr (vd_user_email v)) ?w1 = (Inr (PDict participant), ?w2)"
    using fetch_success [OF s1 provider(3), of ?req2] by (simp add: add_participant_def)
  obtain product_json where prod: "subscript data ''product'' = Inr product_json"
    using valid
    by (auto simp: LiveVideoRequestSerializer_def subscript_def Let_def field_errors_def
        split: pyval.splits option.splits sum.splits)
  let ?r = "\<lparr>pk = fresh_pk (rows w), user_email = vd_user_email v, user_name = vd_user_name v,
              user_dyte_participant_id = p, dyte_meeting_id = m,
              support_user = None, support_user_dyte_participant_id = None,
              status = PENDING, feedback = [], product = product_json\<rparr>"
  have c3: "objects_create L meeting_id (vd_user_name v) (vd_user_email v) PENDING
              participant_id product_json ?w2 = (Inr ?r, ?w2\<lparr>rows := rows w @ [?r]\<rparr>)"
    using uuids new by (simp add: objects_create_def Let_def)
  have fresh: "pk ?r \<notin> set (map pk (rows w))"
    using fresh_pk_bound [of _ "rows w"] by fastforce
  have "create L data w = (Inr (Response (Serialized ?r) 201), ?w2\<lparr>rows := rows w @ [?r]\<rparr>)"
    using valid c1 c2 c3 ids prod by (simp add: create_def subscript_def)
  with fresh prod show ?thesis by simp
qed

lemma create_row_origin:
  assumes "create L data w = (out, w')" and "rows w' \<noteq> rows w"
  shows "\<exists>v dyte_meeting w1 meeting_id participant w2 participant_id r.
           LiveVideoRequestSerializer L data = Inr v
           \<and> create_meeting (PStr (''Live shopping for: '' @ vd_title (vd_product v)))
                (PStr ''ap-south-1'') (PBool False) w = (Inr dyte_meeting, w1)
           \<and> subscript dyte_meeting ''id'' = Inr meeting_id
           \<and> add_participant meeting_id (PStr (vd_user_name v)) (PStr ''video_shoping'')
                (PStr (vd_user_email v)) w1 = (Inr participant, w2)
           \<and> subscript participant ''id'' = Inr participant_id
           \<and> to_python L meeting_id = Inr (Some (dyte_meeting_id r))
           \<and> to_python L participant_id = Inr (Some (user_dyte_participant_id r))
           \<and> rows w' = rows w @ [r] \<and> status r = PENDING
           \<and> out = Inr (Response (Serialized r) 201)"
proof (cases "LiveVideoRequestSerializer L data")
  case (Inl errors)
  with assms show ?thesis by (simp add: create_def)
next
  case (Inr v)
  let ?cm = "create_meeting (PStr (''Live shopping for: '' @ vd_title (vd_product v)))
               (PStr ''ap-south-1'') (PBool False) w"
  obtain x1 w1 where cm: "?cm = (x1, w1)" by fastforce
  then have r1: "rows w1 = rows w"
    by (auto simp: create_meeting_def dest: fetch_rows)
  show ?thesis
  proof (cases "case x1 of Inl e \<Rightarrow> Inl e | Inr d \<Rightarrow> subscript d ''id''")
    case (Inl e)
    with assms Inr cm r1 show ?thesis
      by (auto simp: create_def split: sum.splits)
  next
    case mid: (Inr meeting_id)
    then obtain dyte_meeting where x1: "x1 = Inr dyte_meeting"
      and sub: "subscript dyte_meeting ''id'' = Inr meeting_id"
      by (auto split: sum.splits)
    let ?ap = "add_participant meeting_id (PStr (vd_user_name v)) (PStr ''video_shoping'')
                 (PStr (vd_user_email v)) w1"
    obtain x2 w2 where ap: "?ap = (x2, w2)" by fastforce
    then have r2: "rows w2 = rows w"
      using r1 by (auto simp: add_participant_def dest: fetch_rows)
    show ?thesis
    proof (cases x2)
      case (Inl e)
      with assms Inr cm x1 sub ap r2 show ?thesis by (simp add: create_def)
    next
      case p: (Inr participant)
      show ?thesis
      proof (cases "subscript participant ''id''")
        case (Inl e)
        with assms Inr cm x1 sub ap r2 p show ?thesis by (simp add: create_def)
      next
        case pid: (Inr participant_id)
        show ?thesis
        proof (cases "subscript data ''product''")
          case (Inl e)
          with assms Inr cm x1 sub ap r2 p pid show ?thesis by (simp add: create_def)
        next
          case pj: (Inr product_json)
          obtain x3 w3 where oc: "objects_create L meeting_id (vd_user_name v) (vd_user_email v)
                                    PENDING participant_id product_json w2 = (x3, w3)"
            by fastforce
          show ?thesis
          proof (cases x3)
            case (Inl e)
            with objects_create_rows [OF oc] have "w3 = w2" by auto
            with assms Inr cm x1 sub ap r2 p pid pj oc Inl show ?thesis
              by (simp add: create_def)
          next
            case r: (Inr r)
            from oc r have "objects_create L meeting_id (vd_user_name v) (vd_user_email v)
                              PENDING participant_id product_json w2 = (Inr r, w3)" by simp
            note row = objects_create_row [OF this]
            from assms(1) Inr cm x1 sub ap p pid pj oc r
            have "out = Inr (Response (Serialized r) 201)" and "w' = w3"
              by (simp_all add: create_def)
            with row r2 Inr cm x1 sub ap p pid show ?thesis by simp
          qed
        qed
      qed
    qed
  qed
qed

lemma start_rows:
  assumes "start L k w = (out, w')"
  shows "rows w' = rows w \<or>
         (\<exists>r s. get_object_or_404 k w = Inr r \<and> support_user_dyte_participant_id r = None \<and>
            rows w' = map (\<lambda>x. if pk x = pk r
                                 then r\<lparr>support_user_dyte_participant_id := s, status := ACTIVE\<rparr>
                                 else x) (rows w))"
proof (cases "get_object_or_404 k w")
  case (Inl e)
  with assms show ?thesis by (simp add: start_def)
next
  case (Inr r)
  show ?thesis
  proof (cases "support_user_dyte_participant_id r")
    case (Some support_id)
    obtain x w1 where f: "refresh_participant_token (PUuid (dyte_meeting_id r)) (PUuid support_id) w
                          = (x, w1)" by fastforce
    then have "rows w1 = rows w"
      by (auto simp: refresh_participant_token_def dest: fetch_rows)
    with assms Inr Some f show ?thesis
      by (auto simp: start_def split: sum.splits)
  next
    case None
    obtain x w1 where f: "add_participant (PUuid (dyte_meeting_id r)) (PStr ''Customer Support'')
                            (PStr ''video_shoping'') (PStr ''customer_support'') w = (x, w1)"
      by fastforce
    then have "rows w1 = rows w"
      by (auto simp: add_participant_def dest: fetch_rows)
    with assms Inr None f show ?thesis
      by (auto simp: start_def Let_def save_rows split: sum.splits)
  qed
qed

lemma user_token_world:
  assumes "get_object_or_404 k w = Inr r"
  shows "snd (user_token k w) =
           w\<lparr>calls := calls w @
                [\<lparr>http_method = ''POST'',
                  url = [PStr ''meetings/'', PUuid (dyte_meeting_id r), PStr ''/participants/'',
                         PUuid (user_dyte_participant_id r), PStr ''/token''],
                  json = None\<rparr>],
              script := snd (session_send (script w))\<rparr>"
proof -
  let ?req = "\<lparr>http_method = ''POST'',
                url = [PStr ''meetings/'', PUuid (dyte_meeting_id r), PStr ''/participants/'',
                       PUuid (user_dyte_participant_id r), PStr ''/token''],
                json = None\<rparr>"
  obtain x w1 where f: "fetch ?req w = (x, w1)" by fastforce
  with fetch_world [of ?req w] assms show ?thesis
    by (simp add: user_token_def refresh_participant_token_def split: sum.splits)
qed

lemma user_token_rows: "user_token k w = (out, w') \<Longrightarrow> rows w' = rows w"
proof (cases "get_object_or_404 k w")
  case (Inl e)
  assume "user_token k w = (out, w')"
  with Inl show ?thesis by (simp add: user_token_def)
next
  case (Inr r)
  assume "user_token k w = (out, w')"
  with user_token_world [OF Inr] show ?thesis by simp
qed

lemma step_rows:
  assumes "step L operation w = (out, w')"
  shows "rows w' = rows w
       \<or> (\<exists>r. rows w' = rows w @ [r] \<and> status r = PENDING)
       \<or> (\<exists>k r s. get_object_or_404 k w = Inr r \<and> support_user_dyte_participant_id r = None \<and>
            rows w' = map (\<lambda>x. if pk x = pk r
                                 then r\<lparr>support_user_dyte_participant_id := s, status := ACTIVE\<rparr>
                                 else x) (rows w))"
proof (cases operation)
  case (Create data)
  with assms create_rows [of L data w out w'] show ?thesis by auto
next
  case ListPending
  with assms show ?thesis by (auto simp: list_view_def)
next
  case (Start k)
  with assms start_rows [of L k w out w'] show ?thesis by auto
next
  case (GetUserToken k)
  with assms user_token_rows [of k w out w'] show ?thesis by auto
qed

lemma get_object_unique:
  assumes "get_object_or_404 k w = Inr r" and "x \<in> set (rows w)" and "pk x = pk r"
  shows "x = r"
proof -
  from assms(1) have f: "filter (\<lambda>y. pk y = k) (rows w) = [r]"
    by (simp add: get_object_found)
  then have "r \<in> set (filter (\<lambda>y. pk y = k) (rows w))" by simp
  then have "pk r = k" by simp
  with assms(2,3) have "x \<in> set (filter (\<lambda>y. pk y = k) (rows w))" by simp
  with f show ?thesis by simp
qed

lemma step_row:
  assumes "step L operation w = (out, w')" and "i < length (rows w)"
  shows "i < length (rows w') \<and> pk (rows w' ! i) = pk (rows w ! i)
         \<and> (status (rows w' ! i) = status (rows w ! i)
            \<or> status (rows w' ! i) = ACTIVE
              \<and> support_user_dyte_participant_id (rows w ! i) = None)"
proof -
  from step_rows [OF assms(1)]
  consider "rows w' = rows w"
    | r where "rows w' = rows w @ [r]"
    | k r s where "get_object_or_404 k w = Inr r" "support_user_dyte_participant_id r = None"
        "rows w' = map (\<lambda>x. if pk x = pk r
                             then r\<lparr>support_user_dyte_participant_id := s, status := ACTIVE\<rparr>
                             else x) (rows w)"
    by blast
  then show ?thesis
  proof cases
    case 1
    with assms(2) show ?thesis by simp
  next
    case 2
    with assms(2) show ?thesis by (simp add: nth_append)
  next
    case 3
    show ?thesis
    proof (cases "pk (rows w ! i) = pk r")
      case True
      from assms(2) have "rows w ! i \<in> set (rows w)" by simp
      from get_object_unique [OF 3(1) this True] have "rows w ! i = r" .
      with 3 assms(2) show ?thesis by simp
    next
      case False
      with 3 assms(2) show ?thesis by simp
    qed
  qed
qed

lemma reachable_no_done:
  "reachable L w \<Longrightarrow> \<forall>r\<in>set (rows w). status r \<noteq> DONE"
proof (induction rule: reachable.induct)
  case (initial sc)
  show ?case by simp
next
  case (after w operation)
  obtain out w' where s: "step L operation w = (out, w')" by fastforce
  from step_rows [OF s] after.IH have "\<forall>r\<in>set (rows w'). status r \<noteq> DONE"
    by auto
  with s show ?case by simp
qed

lemma field_errors_keys: "fst ` set (field_errors name r) = (if isl r then {name} else {})"
  by (cases r) (simp_all add: field_errors_def)

lemma run_field_refused: "isl (run_field f kv name) \<longleftrightarrow> refused f kv name"
  by (simp add: run_field_def refused_def split: option.splits sum.splits)

lemma product_errors:
  "malformed_product L (PDict kv) \<Longrightarrow>
   \<exists>es. ProductSerializer L (PDict kv) = Inl (PDict es) \<and> es \<noteq> []
        \<and> (\<forall>name. name \<in> fst ` set es \<longleftrightarrow> product_fault L kv name)"
proof -
  assume bad: "malformed_product L (PDict kv)"
  define r_id where "r_id = run_field (integer_field L) kv ''id''"
  define r_title where "r_title = run_field (char_field L None) kv ''title''"
  define r_image where "r_image = run_field (url_field L) kv ''image''"
  define es where "es = field_errors ''id'' r_id @ field_errors ''title'' r_title
                        @ field_errors ''image'' r_image"
  have i: "isl r_id \<longleftrightarrow> product_fault L kv ''id''"
    and t: "isl r_title \<longleftrightarrow> product_fault L kv ''title''"
    and m: "isl r_image \<longleftrightarrow> product_fault L kv ''image''"
    by (simp_all add: r_id_def r_title_def r_image_def run_field_refused product_fault_def)
  from bad have some: "isl r_id \<or> isl r_title \<or> isl r_image"
    by (simp add: malformed_product_def i t m)
  then have e: "ProductSerializer L (PDict kv) = Inl (PDict es)"
    unfolding ProductSerializer_def es_def r_id_def r_title_def r_image_def
    by (auto simp: Let_def split: sum.splits)
  have mem: "name \<in> fst ` set es \<longleftrightarrow>
               name = ''id'' \<and> isl r_id \<or> name = ''title'' \<and> isl r_title
               \<or> name = ''image'' \<and> isl r_image" for name
    by (simp add: es_def image_Un field_errors_keys)
  from some obtain name where "name \<in> fst ` set es" unfolding mem by blast
  then have "es \<noteq> []" by auto
  moreover have "name \<in> fst ` set es \<longleftrightarrow> product_fault L kv name" for name
  proof (cases "name \<in> {''id'', ''title'', ''image''}")
    case True
    then show ?thesis unfolding mem i t m by auto
  next
    case False
    then show ?thesis unfolding mem by (simp add: product_fault_def)
  qed
  ultimately show ?thesis using e by blast
qed

lemma product_refused: "isl (ProductSerializer L v) \<longleftrightarrow> malformed_product L v"
proof (cases "\<exists>kv. v = PDict kv")
  case True
  then obtain kv where v: "v = PDict kv" by blast
  show ?thesis
  proof (cases "malformed_product L v")
    case True
    with product_errors [of L kv] v show ?thesis by auto
  next
    case False
    then have "\<not> isl (run_field (integer_field L) kv ''id'')"
      "\<not> isl (run_field (char_field L None) kv ''title'')"
      "\<not> isl (run_field (url_field L) kv ''image'')"
      by (simp_all add: v malformed_product_def product_fault_def run_field_refused)
    then have "\<not> isl (ProductSerializer L v)"
      by (auto simp: v ProductSerializer_def Let_def split: sum.splits)
    with False show ?thesis by simp
  qed
next
  case False
  then show ?thesis
    by (cases v) (simp_all add: ProductSerializer_def malformed_product_def)
qed

lemma map_of_field_errors:
  "map_of (field_errors name r) k
   = (case r of Inl e \<Rightarrow> if k = name then Some e else None | Inr _ \<Rightarrow> None)"
  by (cases r) (simp_all add: field_errors_def)

lemma serializer_errors:
  assumes "invalid_payload L (PDict kv)"
  shows "\<exists>es. es \<noteq> [] \<and> LiveVideoRequestSerializer L (PDict kv) = Inl (PDict es)
           \<and> (\<forall>name. name \<in> fst ` set es \<longleftrightarrow> offending L kv name)
           \<and> (\<forall>pkv. map_of kv ''product'' = Some (PDict pkv) \<and> malformed_product L (PDict pkv) \<longrightarrow>
                 (\<exists>pes. map_of es ''product'' = Some (PDict pes)
                    \<and> (\<forall>name. name \<in> fst ` set pes \<longleftrightarrow> product_fault L pkv name)))"
proof -
  define r_feedback :: "pyval + string option" where "r_feedback =
                 (case map_of kv ''feedback'' of
                    None \<Rightarrow> Inr None
                  | Some v \<Rightarrow>
                      (case char_field L None v of
                         Inl ms \<Rightarrow> Inl (PList (map PStr ms))
                       | Inr x \<Rightarrow> Inr (Some x)))"
  define r_product where "r_product =
                 (case map_of kv ''product'' of
                    None \<Rightarrow> Inl (PList [PStr required_msg])
                  | Some PNone \<Rightarrow> Inl (PList [PStr null_msg])
                  | Some v \<Rightarrow> ProductSerializer L v)"
  define r_email where "r_email = run_field (email_field L) kv ''user_email''"
  define r_name where "r_name = run_field (char_field L (Some 128)) kv ''user_name''"
  define es where "es = field_errors ''feedback'' r_feedback @ field_errors ''product'' r_product
                        @ field_errors ''user_email'' r_email @ field_errors ''user_name'' r_name"
  have f: "isl r_feedback \<longleftrightarrow> offending L kv ''feedback''"
    by (simp add: r_feedback_def offending_def split: option.splits sum.splits)
  have p: "isl r_product \<longleftrightarrow> offending L kv ''product''"
  proof (cases "map_of kv ''product''")
    case None
    then show ?thesis by (simp add: r_product_def offending_def)
  next
    case (Some v)
    show ?thesis
    proof (cases "v = PNone")
      case True
      with Some show ?thesis by (simp add: r_product_def offending_def malformed_product_def)
    next
      case False
      with Some have "r_product = ProductSerializer L v"
        by (cases v) (simp_all add: r_product_def)
      with Some show ?thesis by (simp add: offending_def product_refused)
    qed
  qed
  have m: "isl r_email \<longleftrightarrow> offending L kv ''user_email''"
    by (simp add: r_email_def offending_def run_field_refused)
  have n: "isl r_name \<longleftrightarrow> offending L kv ''user_name''"
    by (simp add: r_name_def offending_def run_field_refused)
  from assms have bad: "isl r_feedback \<or> isl r_product \<or> isl r_email \<or> isl r_name"
    by (simp add: invalid_payload_def f p m n)
  then have e: "LiveVideoRequestSerializer L (PDict kv) = Inl (PDict es)"
    unfolding LiveVideoRequestSerializer_def es_def r_feedback_def r_product_def r_email_def
      r_name_def
    by (auto simp: Let_def split: sum.splits)
  have mem: "name \<in> fst ` set es \<longleftrightarrow>
               name = ''feedback'' \<and> isl r_feedback \<or> name = ''product'' \<and> isl r_product
               \<or> name = ''user_email'' \<and> isl r_email \<or> name = ''user_name'' \<and> isl r_name"
    for name
    by (simp add: es_def image_Un field_errors_keys)
  have other: "\<not> offending L kv name"
    if "name \<notin> {''feedback'', ''product'', ''user_email'', ''user_name''}" for name
    using that by (simp add: offending_def)
  from bad obtain name where "name \<in> fst ` set es"
    unfolding mem by blast
  then have ne: "es \<noteq> []" by auto
  have keys: "name \<in> fst ` set es \<longleftrightarrow> offending L kv name" for name
  proof (cases "name \<in> {''feedback'', ''product'', ''user_email'', ''user_name''}")
    case True
    then show ?thesis unfolding mem f p m n by auto
  next
    case False
    with other [of name] show ?thesis unfolding mem by simp
  qed
  have nested: "\<exists>pes. map_of es ''product'' = Some (PDict pes)
                    \<and> (\<forall>name. name \<in> fst ` set pes \<longleftrightarrow> product_fault L pkv name)"
    if "map_of kv ''product'' = Some (PDict pkv)" "malformed_product L (PDict pkv)" for pkv
  proof -
    from product_errors [OF that(2)] obtain pes
      where pes: "ProductSerializer L (PDict pkv) = Inl (PDict pes)"
        "\<forall>name. name \<in> fst ` set pes \<longleftrightarrow> product_fault L pkv name"
      by blast
    from that(1) pes(1) have "r_product = Inl (PDict pes)" by (simp add: r_product_def)
    then have "map_of es ''product'' = Some (PDict pes)"
      by (simp add: es_def map_of_field_errors map_add_def split: sum.splits)
    with pes(2) show ?thesis by blast
  qed
  from ne e keys nested show ?thesis by blast
qed

lemma fetch_final:
  assumes "session_send (script w) = (Inr final, sc)"
  shows "(400 \<le> status_code final \<and> status_code final < 600 \<longrightarrow>
            fst (fetch req w) = Inl (HTTPError final))
         \<and> (success final d \<longrightarrow> fst (fetch req w) = Inr d)"
  using assms
  by (auto simp: fetch_def success_def raise_for_status_def response_json_def subscript_def Let_def
      split: option.splits pyval.splits)

lemma error_status_final:
  assumes "400 \<le> status_code resp" and "status_code resp < 600"
  shows "session_send (resp # rest) = (Inr resp, rest)"
proof -
  from assms have "\<not> is_redirect resp" by (auto simp: is_redirect_def)
  then show ?thesis by (rule session_send_final)
qed

subsection \<open>The sample run\<close>

lemma example_create:
  "create example_lib example_payload
     \<lparr>rows = [], script = meeting_response # participant_response # rest, calls = []\<rparr>
   = (Inr (Response (Serialized example_row) 201),
      \<lparr>rows = [example_row], script = rest,
       calls = [create_meeting_request, add_customer_request]\<rparr>)"
  by (simp add: create_def LiveVideoRequestSerializer_def ProductSerializer_def run_field_def
      create_meeting_def add_participant_def fetch_def session_send_final is_redirect_def raise_for_status_def response_json_def
      subscript_def objects_create_def to_python_def fresh_pk_def
      example_lib_def example_payload_def example_row_def meeting_response_def
      participant_response_def ok_response_def create_meeting_request_def
      add_customer_request_def hex_digit_def Let_def)

lemma example_start:
  "start example_lib 1 \<lparr>rows = [example_row], script = join_response # rest, calls = cs\<rparr>
     = (Inr (Response (Payload (PDict [(''dyte_auth_token'', PStr ''token-A'')])) 201),
        \<lparr>rows = [example_row\<lparr>support_user_dyte_participant_id := Some (UUID 3),
                               status := ACTIVE\<rparr>],
         script = rest,
         calls = cs @ [\<lparr>http_method = ''POST'',
                   url = [PStr ''meetings/'', PUuid (UUID 1), PStr ''/participants''],
                   json = Some (PDict [(''name'', PStr ''Customer Support''),
                                       (''preset_name'', PStr ''video_shoping''),
                                       (''custom_participant_id'', PStr ''customer_support'')])\<rparr>]\<rparr>)"
    by (simp add: start_def get_object_or_404_def add_participant_def fetch_def session_send_final is_redirect_def
        raise_for_status_def response_json_def subscript_def to_python_def save_def
        example_lib_def example_row_def join_response_def ok_response_def hex_digit_def Let_def)

lemma example_user_token:
  "user_token 1 \<lparr>rows = [example_row], script = token_response t # rest, calls = cs\<rparr>
   = (Inr (Response (Payload (PDict [(''dyte_auth_token'', PStr t)])) 200),
      \<lparr>rows = [example_row], script = rest, calls = cs @ [refresh_customer_request]\<rparr>)"
  by (simp add: user_token_def get_object_or_404_def refresh_participant_token_def fetch_def session_send_final is_redirect_def
      raise_for_status_def response_json_def subscript_def example_row_def token_response_def
      ok_response_def refresh_customer_request_def Let_def)

section \<open>The properties of the specification\<close>

text \<open>
  Claim C1. Take a row with status PENDING and no support participant, and a provider that
  answers the first request with a participant: an id that is a UUID, and a token. The
  first \<open>start\<close> answers 201 with that token and leaves the row ACTIVE with the id of the
  participant as \<open>support_user_dyte_participant_id\<close>. The second \<open>start\<close> changes no row and
  hands one request to the session, the token refresh for the same meeting and that same support
  participant; when the provider answers it with a token, that token is returned with
  status 200.
\<close>

theorem start_twice:
  assumes row: "get_object_or_404 k w = Inr r"
    and pending: "status r = PENDING"
    and unset: "support_user_dyte_participant_id r = None"
    and first: "script w = resp1 # rest" "success resp1 (PDict participant)"
    and pid: "map_of participant ''id'' = Some participant_id" "to_python L participant_id = Inr (Some u)"
    and tok: "map_of participant ''token'' = Some t1"
  shows "\<exists>w1. start L k w = (Inr (Response (Payload (PDict [(''dyte_auth_token'', t1)])) 201), w1)
           \<and> get_object_or_404 k w1
               = Inr (r\<lparr>support_user_dyte_participant_id := Some u, status := ACTIVE\<rparr>)
           \<and> rows (snd (start L k w1)) = rows w1
           \<and> calls (snd (start L k w1)) = calls w1 @
                [\<lparr>http_method = ''POST'',
                  url = [PStr ''meetings/'', PUuid (dyte_meeting_id r), PStr ''/participants/'',
                         PUuid u, PStr ''/token''],
                  json = None\<rparr>]
           \<and> (\<forall>resp2 rest' token t2.
                 rest = resp2 # rest' \<and> success resp2 (PDict token)
                 \<and> map_of token ''token'' = Some t2 \<longrightarrow>
                 fst (start L k w1) = Inr (Response (Payload (PDict [(''dyte_auth_token'', t2)])) 200))"
proof -
  let ?r1 = "r\<lparr>support_user_dyte_participant_id := Some u, status := ACTIVE\<rparr>"
  let ?req = "\<lparr>http_method = ''POST'',
                url = [PStr ''meetings/'', PUuid (dyte_meeting_id r), PStr ''/participants''],
                json = Some (PDict [(''name'', PStr ''Customer Support''),
                                    (''preset_name'', PStr ''video_shoping''),
                                    (''custom_participant_id'', PStr ''customer_support'')])\<rparr>"
  let ?w0 = "w\<lparr>calls := calls w @ [?req], script := rest\<rparr>"
  let ?w1 = "save ?r1 ?w0"
  have row0: "get_object_or_404 k ?w0 = Inr r"
    using row by (simp add: get_object_or_404_def)
  have one: "start L k w = (Inr (Response (Payload (PDict [(''dyte_auth_token'', t1)])) 201), ?w1)"
    using row unset pid tok fetch_success [OF first, of ?req]
    by (simp add: start_def add_participant_def subscript_def Let_def)
  have row1: "get_object_or_404 k ?w1 = Inr ?r1"
    using get_object_saved [OF row0, of ?r1] by simp
  let ?req2 = "\<lparr>http_method = ''POST'',
                  url = [PStr ''meetings/'', PUuid (dyte_meeting_id r), PStr ''/participants/'',
                         PUuid u, PStr ''/token''],
                  json = None\<rparr>"
  have w2: "snd (start L k ?w1) = ?w1\<lparr>calls := calls ?w1 @ [?req2], script := snd (session_send (script ?w1))\<rparr>"
  proof -
    obtain x w' where f: "fetch ?req2 ?w1 = (x, w')" by fastforce
    then have "w' = ?w1\<lparr>calls := calls ?w1 @ [?req2], script := snd (session_send (script ?w1))\<rparr>"
      using fetch_world [of ?req2 ?w1] by simp
    with f row1 show ?thesis
      by (simp add: start_def refresh_participant_token_def split: sum.splits)
  qed
  have two: "fst (start L k ?w1) = Inr (Response (Payload (PDict [(''dyte_auth_token'', t2)])) 200)"
    if "rest = resp2 # rest'" "success resp2 (PDict token)" "map_of token ''token'' = Some t2"
    for resp2 rest' token t2
  proof -
    have "script ?w1 = resp2 # rest'" using that(1) by (simp add: save_def)
    from fetch_success [OF this that(2), of ?req2] row1 that(3) show ?thesis
      by (simp add: start_def refresh_participant_token_def subscript_def)
  qed
  from one row1 w2 two show ?thesis
    by (intro exI [of _ ?w1]) (simp add: save_def, blast)
qed

theorem start_twice_witness:
  "get_object_or_404 1 \<lparr>rows = [example_row], script = [join_response, token_response ''token-B''],
                         calls = []\<rparr> = Inr example_row
   \<and> status example_row = PENDING \<and> support_user_dyte_participant_id example_row = None
   \<and> (\<exists>w1. start example_lib 1
               \<lparr>rows = [example_row], script = [join_response, token_response ''token-B''],
                calls = []\<rparr>
             = (Inr (Response (Payload (PDict [(''dyte_auth_token'', PStr ''token-A'')])) 201), w1)
          \<and> get_object_or_404 1 w1
              = Inr (example_row\<lparr>support_user_dyte_participant_id := Some (UUID 3),
                                 status := ACTIVE\<rparr>)
          \<and> rows (snd (start example_lib 1 w1)) = rows w1
          \<and> fst (start example_lib 1 w1)
              = Inr (Response (Payload (PDict [(''dyte_auth_token'', PStr ''token-B'')])) 200))"
proof -
  let ?w = "\<lparr>rows = [example_row], script = [join_response, token_response ''token-B''],
             calls = []\<rparr>"
  have h1: "get_object_or_404 1 ?w = Inr example_row"
    by (simp add: get_object_or_404_def example_row_def)
  have h2: "status example_row = PENDING" by (simp add: example_row_def)
  have h3: "support_user_dyte_participant_id example_row = None" by (simp add: example_row_def)
  have h4: "script ?w = join_response # [token_response ''token-B'']" by simp
  have h5: "success join_response
              (PDict [(''id'', PStr ''00000000-0000-0000-0000-000000000003''),
                      (''token'', PStr ''token-A'')])"
    by (simp add: success_def join_response_def ok_response_def)
  have h6: "map_of [(''id'', PStr ''00000000-0000-0000-0000-000000000003''),
                    (''token'', PStr ''token-A'')] ''id''
            = Some (PStr ''00000000-0000-0000-0000-000000000003'')" by simp
  have h7: "to_python example_lib (PStr ''00000000-0000-0000-0000-000000000003'')
            = Inr (Some (UUID 3))"
    by (simp add: to_python_def example_lib_def hex_digit_def Let_def)
  have h8: "map_of [(''id'', PStr ''00000000-0000-0000-0000-000000000003''),
                    (''token'', PStr ''token-A'')] ''token'' = Some (PStr ''token-A'')" by simp
  have h9: "success (token_response ''token-B'') (PDict [(''token'', PStr ''token-B'')])"
    by (simp add: success_def token_response_def ok_response_def)
  from start_twice [OF h1 h2 h3 h4 h5 h6 h7 h8] h9 h1 h2 h3 show ?thesis
    by fastforce
qed

text \<open>
  Claim C2. Whatever operation runs (create, list, start, user-token), every row stays at
  its place with its key, no row comes back to PENDING from another status, and a row
  that is DONE with a support participant stays DONE. In a state reached from the empty
  table by these operations, the status of a row is left as it is or goes from PENDING to
  ACTIVE; no row is DONE there.
\<close>

theorem status_only_advances:
  assumes "step L operation w = (out, w')" and "i < length (rows w)"
  shows "i < length (rows w') \<and> pk (rows w' ! i) = pk (rows w ! i)
         \<and> (status (rows w' ! i) = PENDING \<longrightarrow> status (rows w ! i) = PENDING)
         \<and> (status (rows w ! i) = DONE
              \<and> support_user_dyte_participant_id (rows w ! i) \<noteq> None \<longrightarrow>
            status (rows w' ! i) = DONE)
         \<and> (reachable L w \<longrightarrow>
              status (rows w' ! i) = status (rows w ! i)
              \<or> status (rows w ! i) = PENDING \<and> status (rows w' ! i) = ACTIVE)"
proof -
  note s = step_row [OF assms]
  have "status (rows w ! i) \<noteq> DONE" if "reachable L w"
    using reachable_no_done [OF that] assms(2) by simp
  with s show ?thesis
    by (cases "status (rows w ! i)") auto
qed

theorem status_only_advances_witness:
  "reachable example_lib
     \<lparr>rows = [example_row], script = [join_response],
      calls = [create_meeting_request, add_customer_request]\<rparr>
   \<and> status (rows \<lparr>rows = [example_row], script = [join_response],
                    calls = [create_meeting_request, add_customer_request]\<rparr> ! 0) = PENDING
   \<and> status (rows (snd (step example_lib (Start 1)
                          \<lparr>rows = [example_row], script = [join_response],
                           calls = [create_meeting_request, add_customer_request]\<rparr>)) ! 0)
       = ACTIVE
   \<and> pk (rows (snd (step example_lib (Start 1)
                      \<lparr>rows = [example_row], script = [join_response],
                       calls = [create_meeting_request, add_customer_request]\<rparr>)) ! 0) = 1
   \<and> status (rows \<lparr>rows = [example_done_row], script = [token_response ''token-B''],
                    calls = []\<rparr> ! 0) = DONE
   \<and> support_user_dyte_participant_id
        (rows \<lparr>rows = [example_done_row], script = [token_response ''token-B''],
               calls = []\<rparr> ! 0) \<noteq> None
   \<and> status (rows (snd (step example_lib (Start 2)
                          \<lparr>rows = [example_done_row], script = [token_response ''token-B''],
                           calls = []\<rparr>)) ! 0) = DONE"
proof -
  let ?init = "\<lparr>rows = [], script = [meeting_response, participant_response, join_response],
              calls = []\<rparr>"
  let ?w = "\<lparr>rows = [example_row], script = [join_response],
             calls = [create_meeting_request, add_customer_request]\<rparr>"
  have e: "snd (step example_lib (Create example_payload) ?init) = ?w"
    by (simp add: example_create)
  have "reachable example_lib (snd (step example_lib (Create example_payload) ?init))"
    by (rule reachable.after) (rule reachable.initial)
  then have r: "reachable example_lib ?w" unfolding e .
  obtain out w' where s: "step example_lib (Start 1) ?w = (out, w')" by fastforce
  have l: "0 < length (rows ?w)" by simp
  have p: "status (rows ?w ! 0) = PENDING" "pk (rows ?w ! 0) = 1" by (simp_all add: example_row_def)
  have a: "status (rows w' ! 0) = ACTIVE" using s by (auto simp: example_start)
  let ?v = "\<lparr>rows = [example_done_row], script = [token_response ''token-B''], calls = []\<rparr>"
  obtain out2 v' where s2: "step example_lib (Start 2) ?v = (out2, v')" by fastforce
  have l2: "0 < length (rows ?v)" by simp
  have d: "status (rows ?v ! 0) = DONE"
    "support_user_dyte_participant_id (rows ?v ! 0) \<noteq> None"
    by (simp_all add: example_done_row_def example_active_row_def example_row_def)
  from status_only_advances [OF s2 l2] d have "status (rows v' ! 0) = DONE" by blast
  with s2 have d': "status (rows (snd (step example_lib (Start 2) ?v)) ! 0) = DONE" by simp
  from status_only_advances [OF s l] r p a s
  have "reachable example_lib ?w \<and> status (rows ?w ! 0) = PENDING
        \<and> status (rows (snd (step example_lib (Start 1) ?w)) ! 0) = ACTIVE
        \<and> pk (rows (snd (step example_lib (Start 1) ?w)) ! 0) = 1"
    by simp
  with d d' show ?thesis by blast
qed

text \<open>
  Claim C3. When the payload is valid and the provider answers both requests with
  identifiers that are UUIDs not stored yet, \<open>create\<close> answers 201 with a new row, appended
  to the table, whose status is PENDING and whose \<open>dyte_meeting_id\<close> and
  \<open>user_dyte_participant_id\<close> are the identifiers of the two answers. And whenever \<open>create\<close>
  returns a row or changes the table at all, it has added that one row: PENDING, with the
  identifiers that \<open>create_meeting\<close> and \<open>add_participant\<close> returned in this very run. Both
  columns hold a UUID in every row, as the type of the rows has it.
\<close>

theorem create_valid_payload:
  assumes run: "create L data w = (out, w')"
  shows "(LiveVideoRequestSerializer L data = Inr v
          \<and> script w = resp1 # resp2 # rest
          \<and> success resp1 (PDict dyte_meeting) \<and> map_of dyte_meeting ''id'' = Some meeting_id
          \<and> success resp2 (PDict participant) \<and> map_of participant ''id'' = Some participant_id
          \<and> to_python L meeting_id = Inr (Some m) \<and> to_python L participant_id = Inr (Some p)
          \<and> m \<notin> set (map dyte_meeting_id (rows w))
          \<and> p \<notin> set (map user_dyte_participant_id (rows w)) \<longrightarrow>
          (\<exists>r. out = Inr (Response (Serialized r) 201) \<and> rows w' = rows w @ [r]
             \<and> status r = PENDING \<and> dyte_meeting_id r = m \<and> user_dyte_participant_id r = p
             \<and> user_name r = vd_user_name v \<and> user_email r = vd_user_email v
             \<and> subscript data ''product'' = Inr (product r)
             \<and> support_user_dyte_participant_id r = None
             \<and> pk r \<notin> set (map pk (rows w))))
         \<and> (rows w' \<noteq> rows w \<or> (\<exists>r c. out = Inr (Response (Serialized r) c)) \<longrightarrow>
             (\<exists>v dyte_meeting w1 meeting_id participant w2 participant_id r.
                LiveVideoRequestSerializer L data = Inr v
                \<and> create_meeting (PStr (''Live shopping for: '' @ vd_title (vd_product v)))
                     (PStr ''ap-south-1'') (PBool False) w = (Inr dyte_meeting, w1)
                \<and> subscript dyte_meeting ''id'' = Inr meeting_id
                \<and> add_participant meeting_id (PStr (vd_user_name v)) (PStr ''video_shoping'')
                     (PStr (vd_user_email v)) w1 = (Inr participant, w2)
                \<and> subscript participant ''id'' = Inr participant_id
                \<and> to_python L meeting_id = Inr (Some (dyte_meeting_id r))
                \<and> to_python L participant_id = Inr (Some (user_dyte_participant_id r))
                \<and> rows w' = rows w @ [r] \<and> status r = PENDING
                \<and> out = Inr (Response (Serialized r) 201)))"
proof (intro conjI impI)
  assume "rows w' \<noteq> rows w \<or> (\<exists>r c. out = Inr (Response (Serialized r) c))"
  with run have "rows w' \<noteq> rows w"
    by (auto dest: create_serialized)
  from create_row_origin [OF run this] show "\<exists>v dyte_meeting w1 meeting_id participant w2 participant_id r.
                LiveVideoRequestSerializer L data = Inr v
                \<and> create_meeting (PStr (''Live shopping for: '' @ vd_title (vd_product v)))
                     (PStr ''ap-south-1'') (PBool False) w = (Inr dyte_meeting, w1)
                \<and> subscript dyte_meeting ''id'' = Inr meeting_id
                \<and> add_participant meeting_id (PStr (vd_user_name v)) (PStr ''video_shoping'')
                     (PStr (vd_user_email v)) w1 = (Inr participant, w2)
                \<and> subscript participant ''id'' = Inr participant_id
                \<and> to_python L meeting_id = Inr (Some (dyte_meeting_id r))
                \<and> to_python L participant_id = Inr (Some (user_dyte_participant_id r))
                \<and> rows w' = rows w @ [r] \<and> status r = PENDING
                \<and> out = Inr (Response (Serialized r) 201)" .
next
  assume h: "LiveVideoRequestSerializer L data = Inr v
          \<and> script w = resp1 # resp2 # rest
          \<and> success resp1 (PDict dyte_meeting) \<and> map_of dyte_meeting ''id'' = Some meeting_id
          \<and> success resp2 (PDict participant) \<and> map_of participant ''id'' = Some participant_id
          \<and> to_python L meeting_id = Inr (Some m) \<and> to_python L participant_id = Inr (Some p)
          \<and> m \<notin> set (map dyte_meeting_id (rows w))
          \<and> p \<notin> set (map user_dyte_participant_id (rows w))"
  from create_success [of L data v w resp1 resp2 rest dyte_meeting participant meeting_id
      participant_id m p] h run
  show "\<exists>r. out = Inr (Response (Serialized r) 201) \<and> rows w' = rows w @ [r]
             \<and> status r = PENDING \<and> dyte_meeting_id r = m \<and> user_dyte_participant_id r = p
             \<and> user_name r = vd_user_name v \<and> user_email r = vd_user_email v
             \<and> subscript data ''product'' = Inr (product r)
             \<and> support_user_dyte_participant_id r = None
             \<and> pk r \<notin> set (map pk (rows w))"
    by auto
qed

theorem create_valid_payload_witness:
  "create example_lib example_payload
     \<lparr>rows = [], script = [meeting_response, participant_response], calls = []\<rparr>
   = (Inr (Response (Serialized example_row) 201),
      \<lparr>rows = [example_row], script = [],
       calls = [create_meeting_request, add_customer_request]\<rparr>)
   \<and> status example_row = PENDING
   \<and> dyte_meeting_id example_row = UUID 1 \<and> user_dyte_participant_id example_row = UUID 2
   \<and> to_python example_lib (PStr ''00000000-0000-0000-0000-000000000001'') = Inr (Some (UUID 1))
   \<and> to_python example_lib (PStr ''00000000-0000-0000-0000-000000000002'') = Inr (Some (UUID 2))
   \<and> (\<exists>r. [example_row] = [] @ [r] \<and> status r = PENDING
          \<and> dyte_meeting_id r = UUID 1 \<and> user_dyte_participant_id r = UUID 2)
   \<and> [example_row] \<noteq> []
   \<and> (\<exists>meeting_id participant_id r.
          to_python example_lib meeting_id = Inr (Some (dyte_meeting_id r))
          \<and> to_python example_lib participant_id = Inr (Some (user_dyte_participant_id r))
          \<and> [example_row] = [] @ [r] \<and> status r = PENDING)"
proof -
  let ?w = "\<lparr>rows = [], script = [meeting_response, participant_response], calls = []\<rparr>"
  let ?w' = "\<lparr>rows = [example_row], script = [],
              calls = [create_meeting_request, add_customer_request]\<rparr>"
  let ?v = "\<lparr>vd_feedback = None,
             vd_product = \<lparr>vd_id = 1, vd_title = ''Shoes'', vd_image = ''https://x.com/shoes.png''\<rparr>,
             vd_user_email = ''alice@x.com'', vd_user_name = ''Alice''\<rparr>"
  have run: "create example_lib example_payload ?w = (Inr (Response (Serialized example_row) 201), ?w')"
    by (rule example_create)
  have valid: "LiveVideoRequestSerializer example_lib example_payload = Inr ?v"
    by (simp add: LiveVideoRequestSerializer_def ProductSerializer_def run_field_def
        example_lib_def example_payload_def Let_def)
  have s: "script ?w = meeting_response # participant_response # []" by simp
  have r1: "success meeting_response (PDict [(''id'', PStr ''00000000-0000-0000-0000-000000000001'')])"
    by (simp add: success_def meeting_response_def ok_response_def)
  have r2: "success participant_response
              (PDict [(''id'', PStr ''00000000-0000-0000-0000-000000000002''),
                      (''token'', PStr ''token-U'')])"
    by (simp add: success_def participant_response_def ok_response_def)
  have u1: "to_python example_lib (PStr ''00000000-0000-0000-0000-000000000001'') = Inr (Some (UUID 1))"
    and u2: "to_python example_lib (PStr ''00000000-0000-0000-0000-000000000002'') = Inr (Some (UUID 2))"
    by (simp_all add: to_python_def example_lib_def hex_digit_def Let_def)
  have changed: "rows ?w' \<noteq> rows ?w" by simp
  from create_valid_payload [OF run,
      where v = ?v and ?resp1.0 = meeting_response and ?resp2.0 = participant_response
        and rest = "[]"
        and dyte_meeting = "[(''id'', PStr ''00000000-0000-0000-0000-000000000001'')]"
        and meeting_id = "PStr ''00000000-0000-0000-0000-000000000001''"
        and participant = "[(''id'', PStr ''00000000-0000-0000-0000-000000000002''),
                            (''token'', PStr ''token-U'')]"
        and participant_id = "PStr ''00000000-0000-0000-0000-000000000002''"
        and m = "UUID 1" and p = "UUID 2"]
    valid s r1 r2 u1 u2
  have "\<exists>r. rows ?w' = rows ?w @ [r] \<and> status r = PENDING
          \<and> dyte_meeting_id r = UUID 1 \<and> user_dyte_participant_id r = UUID 2"
    by auto
  moreover
  from create_valid_payload [OF run] changed
  have "\<exists>meeting_id participant_id r.
          to_python example_lib meeting_id = Inr (Some (dyte_meeting_id r))
          \<and> to_python example_lib participant_id = Inr (Some (user_dyte_participant_id r))
          \<and> rows ?w' = rows ?w @ [r] \<and> status r = PENDING"
    by blast
  ultimately show ?thesis using run u1 u2 by (simp add: example_row_def)
qed

text \<open>
  Claim C4. \<open>list\<close> answers 200 with the rows whose status is PENDING, each as often as it
  is in the table, and with no row that is ACTIVE or DONE; the world is the same
  afterwards: no row has changed and no request went to the provider.
\<close>

theorem list_pending_only:
  assumes "list_view w = (out, w')"
  shows "w' = w \<and>
         (\<exists>rs. out = Inr (Response (SerializedMany rs) 200)
            \<and> (\<forall>r. count_list rs r = (if status r = PENDING then count_list (rows w) r else 0))
            \<and> (\<forall>r\<in>set rs. status r \<noteq> ACTIVE \<and> status r \<noteq> DONE))"
proof -
  have c: "count_list (filter P xs) r = (if P r then count_list xs r else 0)"
    for P and xs :: "live_video_request list" and r
    by (induction xs) auto
  from assms show ?thesis
    by (auto simp: list_view_def objects_filter_def c)
qed

theorem list_pending_only_witness:
  "list_view \<lparr>rows = [example_row, example_active_row], script = [], calls = []\<rparr>
     = (Inr (Response (SerializedMany [example_row]) 200),
        \<lparr>rows = [example_row, example_active_row], script = [], calls = []\<rparr>)
   \<and> count_list [example_row] example_row
       = count_list (rows \<lparr>rows = [example_row, example_active_row], script = [], calls = []\<rparr>)
           example_row
   \<and> count_list [example_row] example_active_row = 0"
proof -
  have h: "list_view \<lparr>rows = [example_row, example_active_row], script = [], calls = []\<rparr>
     = (Inr (Response (SerializedMany [example_row]) 200),
        \<lparr>rows = [example_row, example_active_row], script = [], calls = []\<rparr>)"
    by (simp add: list_view_def objects_filter_def example_row_def example_active_row_def)
  have p: "status example_row = PENDING" "status example_active_row \<noteq> PENDING"
    by (simp_all add: example_row_def example_active_row_def)
  from list_pending_only [OF h] obtain rs
    where "Inr (Response (SerializedMany [example_row]) 200) = Inr (Response (SerializedMany rs) 200)"
      and c: "\<forall>r. count_list rs r
                = (if status r = PENDING
                   then count_list (rows \<lparr>rows = [example_row, example_active_row], script = [],
                                          calls = []\<rparr>) r
                   else 0)"
    by blast
  then have rs: "rs = [example_row]" by simp
  from c [rule_format, of example_row] c [rule_format, of example_active_row] p h
  show ?thesis unfolding rs by simp
qed

text \<open>
  Claim C5. For a key that no row of the table has, \<open>start\<close> and \<open>user_token\<close> both fail
  with \<open>Http404\<close> and leave the world as it was: no request to the provider, no row
  changed.
\<close>

theorem unknown_id_not_found:
  assumes "k \<notin> set (map pk (rows w))"
  shows "start L k w = (Inl Http404, w) \<and> user_token k w = (Inl Http404, w)"
  using get_object_absent [OF assms] by (simp add: start_def user_token_def)

theorem unknown_id_not_found_witness:
  "5 \<notin> set (map pk (rows \<lparr>rows = [example_row], script = [join_response], calls = []\<rparr>))
   \<and> start example_lib 5 \<lparr>rows = [example_row], script = [join_response], calls = []\<rparr>
       = (Inl Http404, \<lparr>rows = [example_row], script = [join_response], calls = []\<rparr>)
   \<and> user_token 5 \<lparr>rows = [example_row], script = [join_response], calls = []\<rparr>
       = (Inl Http404, \<lparr>rows = [example_row], script = [join_response], calls = []\<rparr>)"
proof -
  have h: "5 \<notin> set (map pk (rows \<lparr>rows = [example_row], script = [join_response], calls = []\<rparr>))"
    by (simp add: example_row_def)
  from unknown_id_not_found [OF h, of example_lib] h show ?thesis by simp
qed

text \<open>
  Claim C6. For a stored row, each \<open>user_token\<close> hands one request to the session, the token refresh for
  the \<open>dyte_meeting_id\<close> and the \<open>user_dyte_participant_id\<close> of the row, and leaves the table
  as it was, also when called twice in succession; the token of each answer is the one the
  provider gave to that very request, so the two tokens may differ.
\<close>

theorem user_token_twice:
  assumes row: "get_object_or_404 k w = Inr r"
    and one: "user_token k w = (out1, w1)"
    and two: "user_token k w1 = (out2, w2)"
    and req: "req = \<lparr>http_method = ''POST'',
                     url = [PStr ''meetings/'', PUuid (dyte_meeting_id r), PStr ''/participants/'',
                            PUuid (user_dyte_participant_id r), PStr ''/token''],
                     json = None\<rparr>"
  shows "rows w1 = rows w \<and> rows w2 = rows w
         \<and> calls w1 = calls w @ [req] \<and> calls w2 = calls w1 @ [req]
         \<and> (\<forall>resp1 resp2 rest token1 token2 t1 t2.
               script w = resp1 # resp2 # rest
               \<and> success resp1 (PDict token1) \<and> map_of token1 ''token'' = Some t1
               \<and> success resp2 (PDict token2) \<and> map_of token2 ''token'' = Some t2 \<longrightarrow>
               out1 = Inr (Response (Payload (PDict [(''dyte_auth_token'', t1)])) 200)
               \<and> out2 = Inr (Response (Payload (PDict [(''dyte_auth_token'', t2)])) 200))"
proof -
  from user_token_world [OF row] one
  have w1: "w1 = w\<lparr>calls := calls w @ [req], script := snd (session_send (script w))\<rparr>"
    by (simp add: req)
  then have row1: "get_object_or_404 k w1 = Inr r"
    using row by (simp add: get_object_or_404_def)
  from user_token_world [OF row1] two
  have w2: "w2 = w1\<lparr>calls := calls w1 @ [req], script := snd (session_send (script w1))\<rparr>"
    by (simp add: req)
  have tokens: "out1 = Inr (Response (Payload (PDict [(''dyte_auth_token'', t1)])) 200)
                \<and> out2 = Inr (Response (Payload (PDict [(''dyte_auth_token'', t2)])) 200)"
    if s: "script w = resp1 # resp2 # rest"
      and r1: "success resp1 (PDict token1)" "map_of token1 ''token'' = Some t1"
      and r2: "success resp2 (PDict token2)" "map_of token2 ''token'' = Some t2"
    for resp1 resp2 rest token1 token2 t1 t2
  proof -
    have s1: "script w1 = resp2 # rest"
      using w1 s success_final [OF r1(1), of "resp2 # rest"] by simp
    from fetch_success [OF s r1(1), of req] row one r1(2)
    have "out1 = Inr (Response (Payload (PDict [(''dyte_auth_token'', t1)])) 200)"
      by (simp add: user_token_def refresh_participant_token_def subscript_def req)
    moreover
    from fetch_success [OF s1 r2(1), of req] row1 two r2(2)
    have "out2 = Inr (Response (Payload (PDict [(''dyte_auth_token'', t2)])) 200)"
      by (simp add: user_token_def refresh_participant_token_def subscript_def req)
    ultimately show ?thesis by simp
  qed
  from w1 w2 tokens show ?thesis by simp blast
qed

theorem user_token_twice_witness:
  "get_object_or_404 1
     \<lparr>rows = [example_row], script = [token_response ''token-B'', token_response ''token-C''],
      calls = []\<rparr> = Inr example_row
   \<and> user_token 1
       \<lparr>rows = [example_row], script = [token_response ''token-B'', token_response ''token-C''],
        calls = []\<rparr>
     = (Inr (Response (Payload (PDict [(''dyte_auth_token'', PStr ''token-B'')])) 200),
        \<lparr>rows = [example_row], script = [token_response ''token-C''],
         calls = [refresh_customer_request]\<rparr>)
   \<and> user_token 1
       \<lparr>rows = [example_row], script = [token_response ''token-C''],
        calls = [refresh_customer_request]\<rparr>
     = (Inr (Response (Payload (PDict [(''dyte_auth_token'', PStr ''token-C'')])) 200),
        \<lparr>rows = [example_row], script = [],
         calls = [refresh_customer_request, refresh_customer_request]\<rparr>)
   \<and> rows \<lparr>rows = [example_row], script = [],
            calls = [refresh_customer_request, refresh_customer_request]\<rparr> = [example_row]
   \<and> PStr ''token-B'' \<noteq> PStr ''token-C''"
proof -
  let ?w = "\<lparr>rows = [example_row], script = [token_response ''token-B'', token_response ''token-C''],
             calls = []\<rparr>"
  let ?w1 = "\<lparr>rows = [example_row], script = [token_response ''token-C''],
              calls = [refresh_customer_request]\<rparr>"
  let ?w2 = "\<lparr>rows = [example_row], script = [],
              calls = [refresh_customer_request, refresh_customer_request]\<rparr>"
  have row: "get_object_or_404 1 ?w = Inr example_row"
    by (simp add: get_object_or_404_def example_row_def)
  have one: "user_token 1 ?w
             = (Inr (Response (Payload (PDict [(''dyte_auth_token'', PStr ''token-B'')])) 200), ?w1)"
    using example_user_token [of "''token-B''" "[token_response ''token-C'']" "[]"] by simp
  have two: "user_token 1 ?w1
             = (Inr (Response (Payload (PDict [(''dyte_auth_token'', PStr ''token-C'')])) 200), ?w2)"
    using example_user_token [of "''token-C''" "[]" "[refresh_customer_request]"] by simp
  have req: "refresh_customer_request
             = \<lparr>http_method = ''POST'',
                url = [PStr ''meetings/'', PUuid (dyte_meeting_id example_row),
                       PStr ''/participants/'', PUuid (user_dyte_participant_id example_row),
                       PStr ''/token''],
                json = None\<rparr>"
    by (simp add: refresh_customer_request_def example_row_def)
  from user_token_twice [OF row one two req] have "rows ?w2 = rows ?w" by blast
  with row one two show ?thesis by simp
qed

text \<open>
  Claim C7. A create payload that is invalid (it is not a dictionary, a required field is
  missing or refused, or the product blob is malformed) is refused by the serializer, and
  \<open>create\<close> answers 400 with the errors of the serializer and leaves the world as it was:
  no request to the provider, no row added. The errors are a dictionary that is not
  empty; for a payload that is a dictionary its keys are exactly the fields at fault, and
  under \<open>product\<close> the errors of a malformed dictionary list exactly the product fields at
  fault.
\<close>

theorem create_invalid_payload:
  assumes "invalid_payload L data"
  shows "\<exists>es. es \<noteq> [] \<and> LiveVideoRequestSerializer L data = Inl (PDict es)
           \<and> create L data w = (Inr (Response (Payload (PDict es)) 400), w)
           \<and> (\<forall>kv name. data = PDict kv \<longrightarrow> (name \<in> fst ` set es \<longleftrightarrow> offending L kv name))
           \<and> (\<forall>kv pkv. data = PDict kv \<and> map_of kv ''product'' = Some (PDict pkv)
                  \<and> malformed_product L (PDict pkv) \<longrightarrow>
                 (\<exists>pes. map_of es ''product'' = Some (PDict pes)
                    \<and> (\<forall>name. name \<in> fst ` set pes \<longleftrightarrow> product_fault L pkv name)))"
proof (cases "\<exists>kv. data = PDict kv")
  case True
  then obtain kv where d: "data = PDict kv" by blast
  from serializer_errors [of L kv] assms d obtain es
    where es: "es \<noteq> []" "LiveVideoRequestSerializer L data = Inl (PDict es)"
      "\<forall>name. name \<in> fst ` set es \<longleftrightarrow> offending L kv name"
      "\<forall>pkv. map_of kv ''product'' = Some (PDict pkv) \<and> malformed_product L (PDict pkv) \<longrightarrow>
                 (\<exists>pes. map_of es ''product'' = Some (PDict pes)
                    \<and> (\<forall>name. name \<in> fst ` set pes \<longleftrightarrow> product_fault L pkv name))"
    by blast
  from es(2) have "create L data w = (Inr (Response (Payload (PDict es)) 400), w)"
    by (simp add: create_def)
  with es d show ?thesis by (intro exI [of _ es]) simp
next
  case False
  then have "\<exists>msg. LiveVideoRequestSerializer L data
                = Inl (PDict [(''non_field_errors'', PList [PStr msg])])"
    by (cases data) (auto simp: LiveVideoRequestSerializer_def)
  then obtain msg where e: "LiveVideoRequestSerializer L data
                = Inl (PDict [(''non_field_errors'', PList [PStr msg])])" by blast
  then have "create L data w
             = (Inr (Response (Payload (PDict [(''non_field_errors'', PList [PStr msg])])) 400), w)"
    by (simp add: create_def)
  with e False show ?thesis
    by (intro exI [of _ "[(''non_field_errors'', PList [PStr msg])]"]) simp
qed

theorem create_invalid_payload_witness:
  "invalid_payload example_lib incomplete_payload
   \<and> create example_lib incomplete_payload
        \<lparr>rows = [], script = [meeting_response, participant_response], calls = []\<rparr>
     = (Inr (Response (Payload (PDict [(''product'', PDict [(''title'', PList [PStr required_msg])]),
                                       (''user_email'', PList [PStr required_msg])])) 400),
        \<lparr>rows = [], script = [meeting_response, participant_response], calls = []\<rparr>)
   \<and> invalid_payload example_lib junk_payload
   \<and> (\<exists>es. es \<noteq> []
          \<and> create example_lib junk_payload
               \<lparr>rows = [], script = [meeting_response, participant_response], calls = []\<rparr>
            = (Inr (Response (Payload (PDict es)) 400),
               \<lparr>rows = [], script = [meeting_response, participant_response], calls = []\<rparr>)
          \<and> ''product'' \<in> fst ` set es \<and> ''user_email'' \<notin> fst ` set es)"
proof -
  let ?w = "\<lparr>rows = [], script = [meeting_response, participant_response], calls = []\<rparr>"
  have i1: "invalid_payload example_lib incomplete_payload"
    by (simp add: invalid_payload_def incomplete_payload_def offending_def refused_def)
  have i2: "invalid_payload example_lib junk_payload"
    by (simp add: invalid_payload_def junk_payload_def offending_def malformed_product_def)
  have ser: "LiveVideoRequestSerializer example_lib incomplete_payload
             = Inl (PDict [(''product'', PDict [(''title'', PList [PStr required_msg])]),
                           (''user_email'', PList [PStr required_msg])])"
    by (simp add: LiveVideoRequestSerializer_def ProductSerializer_def run_field_def
        field_errors_def example_lib_def incomplete_payload_def Let_def)
  from create_invalid_payload [OF i1, of ?w] ser
  have 1: "create example_lib incomplete_payload ?w
     = (Inr (Response (Payload (PDict [(''product'', PDict [(''title'', PList [PStr required_msg])]),
                                       (''user_email'', PList [PStr required_msg])])) 400), ?w)"
    by auto
  have o: "offending example_lib
             [(''user_name'', PStr ''Alice''), (''user_email'', PStr ''alice@x.com''),
              (''product'', PStr ''junk'')] ''product''"
    "\<not> offending example_lib
             [(''user_name'', PStr ''Alice''), (''user_email'', PStr ''alice@x.com''),
              (''product'', PStr ''junk'')] ''user_email''"
    by (simp_all add: offending_def malformed_product_def refused_def example_lib_def)
  from create_invalid_payload [OF i2, of ?w] obtain es
    where es: "es \<noteq> []"
      "create example_lib junk_payload ?w = (Inr (Response (Payload (PDict es)) 400), ?w)"
      "\<forall>kv name. junk_payload = PDict kv \<longrightarrow>
         (name \<in> fst ` set es \<longleftrightarrow> offending example_lib kv name)"
    by blast
  from es(3) o have "''product'' \<in> fst ` set es \<and> ''user_email'' \<notin> fst ` set es"
    by (simp add: junk_payload_def)
  with es(1,2) have 2: "\<exists>es. es \<noteq> []
          \<and> create example_lib junk_payload ?w = (Inr (Response (Payload (PDict es)) 400), ?w)
          \<and> ''product'' \<in> fst ` set es \<and> ''user_email'' \<notin> fst ` set es"
    by blast
  from i1 i2 1 2 show ?thesis by blast
qed

text \<open>
  Claim C8. For a stored row and a provider that answers with a success that holds a
  token: when the row has a support participant (rejoin), \<open>start\<close> answers 200 with
  \<open>{dyte_auth_token}\<close>; when it has none and the answer holds an id that the UUID field
  accepts (first join), \<open>start\<close> answers 201 with \<open>{dyte_auth_token}\<close>. And no \<open>start\<close> that
  succeeds answers anything else: its body is \<open>{dyte_auth_token}\<close> and its status is 201
  when the row had no support participant and 200 when it had one.
\<close>

theorem start_status_code:
  assumes row: "get_object_or_404 k w = Inr r"
  shows "(support_user_dyte_participant_id r \<noteq> None
          \<and> script w = resp # rest \<and> success resp (PDict d) \<and> map_of d ''token'' = Some t \<longrightarrow>
            fst (start L k w) = Inr (Response (Payload (PDict [(''dyte_auth_token'', t)])) 200))
         \<and> (support_user_dyte_participant_id r = None
             \<and> script w = resp # rest \<and> success resp (PDict d)
             \<and> map_of d ''id'' = Some participant_id
             \<and> to_python L participant_id = Inr support_id
             \<and> map_of d ''token'' = Some t \<longrightarrow>
            fst (start L k w) = Inr (Response (Payload (PDict [(''dyte_auth_token'', t)])) 201))
         \<and> (\<forall>p c w'. start L k w = (Inr (Response p c), w') \<longrightarrow>
               (\<exists>t'. p = Payload (PDict [(''dyte_auth_token'', t')]))
               \<and> c = (if support_user_dyte_participant_id r = None then 201 else 200))"
proof (intro conjI impI allI)
  assume a: "support_user_dyte_participant_id r \<noteq> None
          \<and> script w = resp # rest \<and> success resp (PDict d) \<and> map_of d ''token'' = Some t"
  then obtain support_id where s: "support_user_dyte_participant_id r = Some support_id"
    by auto
  from a have sc: "script w = resp # rest" and ok: "success resp (PDict d)" by simp_all
  from fetch_success [OF sc ok] row s a
  show "fst (start L k w) = Inr (Response (Payload (PDict [(''dyte_auth_token'', t)])) 200)"
    by (simp add: start_def refresh_participant_token_def subscript_def)
next
  assume a: "support_user_dyte_participant_id r = None
             \<and> script w = resp # rest \<and> success resp (PDict d)
             \<and> map_of d ''id'' = Some participant_id
             \<and> to_python L participant_id = Inr support_id
             \<and> map_of d ''token'' = Some t"
  then have sc: "script w = resp # rest" and ok: "success resp (PDict d)" by simp_all
  from fetch_success [OF sc ok] row a
  show "fst (start L k w) = Inr (Response (Payload (PDict [(''dyte_auth_token'', t)])) 201)"
    by (simp add: start_def add_participant_def subscript_def Let_def)
next
  fix p c w'
  assume "start L k w = (Inr (Response p c), w')"
  with row show "\<exists>t'. p = Payload (PDict [(''dyte_auth_token'', t')])"
    by (auto simp: start_def Let_def split: sum.splits option.splits prod.splits)
next
  fix p c w'
  assume "start L k w = (Inr (Response p c), w')"
  with row show "c = (if support_user_dyte_participant_id r = None then 201 else 200)"
    by (auto simp: start_def Let_def split: sum.splits option.splits prod.splits)
qed

theorem start_status_code_witness:
  "get_object_or_404 1 \<lparr>rows = [example_row, example_active_row], script = [join_response],
                         calls = []\<rparr> = Inr example_row
   \<and> support_user_dyte_participant_id example_row = None
   \<and> fst (start example_lib 1
            \<lparr>rows = [example_row, example_active_row], script = [join_response], calls = []\<rparr>)
     = Inr (Response (Payload (PDict [(''dyte_auth_token'', PStr ''token-A'')])) 201)
   \<and> get_object_or_404 2 \<lparr>rows = [example_row, example_active_row],
                           script = [token_response ''token-B''], calls = []\<rparr>
       = Inr example_active_row
   \<and> support_user_dyte_participant_id example_active_row \<noteq> None
   \<and> fst (start example_lib 2
            \<lparr>rows = [example_row, example_active_row], script = [token_response ''token-B''],
             calls = []\<rparr>)
     = Inr (Response (Payload (PDict [(''dyte_auth_token'', PStr ''token-B'')])) 200)"
proof -
  let ?w1 = "\<lparr>rows = [example_row, example_active_row], script = [join_response], calls = []\<rparr>"
  let ?w2 = "\<lparr>rows = [example_row, example_active_row], script = [token_response ''token-B''],
              calls = []\<rparr>"
  let ?pid = "PStr ''00000000-0000-0000-0000-000000000003''"
  have r1: "get_object_or_404 1 ?w1 = Inr example_row"
    and r2: "get_object_or_404 2 ?w2 = Inr example_active_row"
    by (simp_all add: get_object_or_404_def example_row_def example_active_row_def)
  have s1: "support_user_dyte_participant_id example_row = None"
    and s2: "support_user_dyte_participant_id example_active_row \<noteq> None"
    by (simp_all add: example_row_def example_active_row_def)
  have a1: "success join_response (PDict [(''id'', ?pid), (''token'', PStr ''token-A'')])"
    and a2: "success (token_response ''token-B'') (PDict [(''token'', PStr ''token-B'')])"
    by (simp_all add: success_def join_response_def token_response_def ok_response_def)
  have u: "to_python example_lib ?pid = Inr (Some (UUID 3))"
    by (simp add: to_python_def example_lib_def hex_digit_def Let_def)
  from start_status_code [OF r1,
      where resp = join_response and rest = "[]"
        and d = "[(''id'', ?pid), (''token'', PStr ''token-A'')]" and t = "PStr ''token-A''"
        and participant_id = ?pid and L = example_lib and support_id = "Some (UUID 3)"]
    s1 a1 u
  have 1: "fst (start example_lib 1 ?w1)
           = Inr (Response (Payload (PDict [(''dyte_auth_token'', PStr ''token-A'')])) 201)"
    by simp
  from start_status_code [OF r2,
      where resp = "token_response ''token-B''" and rest = "[]"
        and d = "[(''token'', PStr ''token-B'')]" and t = "PStr ''token-B''" and L = example_lib]
    s2 a2
  have 2: "fst (start example_lib 2 ?w2)
           = Inr (Response (Payload (PDict [(''dyte_auth_token'', PStr ''token-B'')])) 200)"
    by simp
  from r1 r2 s1 s2 1 2 show ?thesis by simp
qed

text \<open>
  Claim C9, as the code has it. Each of the three operations of the adapter raises
  \<open>HTTPError\<close>, which carries the response with its status code and body, when the status
  code of the answer of the provider is in the classes 4xx and 5xx, and on a success, an
  answer of the class 2xx whose body is a JSON envelope, it returns the value of the field
  \<open>data\<close> and not the envelope. The same holds of the answer that the session hands back
  after it has followed redirects.
\<close>

theorem adapter_results:
  assumes "operation \<in> {create_meeting title preferred_region record_on_start,
                        add_participant meeting_id name preset custom_id,
                        refresh_participant_token meeting_id participant_id}"
  shows "(script w = resp # rest \<and> 400 \<le> status_code resp \<and> status_code resp < 600 \<longrightarrow>
            fst (operation w) = Inl (HTTPError resp))
         \<and> (script w = resp # rest \<and> success resp d \<longrightarrow> fst (operation w) = Inr d)
         \<and> (session_send (script w) = (Inr final, sc) \<longrightarrow>
              (400 \<le> status_code final \<and> status_code final < 600 \<longrightarrow>
                 fst (operation w) = Inl (HTTPError final))
              \<and> (success final d \<longrightarrow> fst (operation w) = Inr d))"
proof -
  have "(script w = resp # rest \<and> 400 \<le> status_code resp \<and> status_code resp < 600 \<longrightarrow>
            fst (fetch req w) = Inl (HTTPError resp))
         \<and> (script w = resp # rest \<and> success resp d \<longrightarrow> fst (fetch req w) = Inr d)
         \<and> (session_send (script w) = (Inr final, sc) \<longrightarrow>
              (400 \<le> status_code final \<and> status_code final < 600 \<longrightarrow>
                 fst (fetch req w) = Inl (HTTPError final))
              \<and> (success final d \<longrightarrow> fst (fetch req w) = Inr d))" for req
  proof (intro conjI impI)
    assume a: "script w = resp # rest \<and> 400 \<le> status_code resp \<and> status_code resp < 600"
    then have "session_send (script w) = (Inr resp, rest)"
      by (simp add: error_status_final)
    from fetch_final [OF this, where req = req] a show "fst (fetch req w) = Inl (HTTPError resp)" by simp
  next
    assume a: "script w = resp # rest \<and> success resp d"
    then have "session_send (script w) = (Inr resp, rest)"
      using success_final [of resp d rest] by simp
    from fetch_final [OF this, where req = req and d = d] a show "fst (fetch req w) = Inr d" by simp
  next
    assume s: "session_send (script w) = (Inr final, sc)"
      and "400 \<le> status_code final \<and> status_code final < 600"
    with fetch_final [OF s, where req = req] show "fst (fetch req w) = Inl (HTTPError final)" by simp
  next
    assume s: "session_send (script w) = (Inr final, sc)" and "success final d"
    with fetch_final [OF s, where req = req and d = d] show "fst (fetch req w) = Inr d" by simp
  qed
  with assms show ?thesis
    by (auto simp: create_meeting_def add_participant_def refresh_participant_token_def)
qed

theorem adapter_results_witness:
  "fst (refresh_participant_token (PUuid (UUID 1)) (PUuid (UUID 2))
          \<lparr>rows = [], script = [not_found_response], calls = []\<rparr>)
     = Inl (HTTPError not_found_response)
   \<and> fst (add_participant (PUuid (UUID 1)) (PStr ''Customer Support'') (PStr ''video_shoping'')
            (PStr ''customer_support'')
            \<lparr>rows = [], script = [join_response], calls = []\<rparr>)
     = Inr (PDict [(''id'', PStr ''00000000-0000-0000-0000-000000000003''),
                   (''token'', PStr ''token-A'')])
   \<and> session_send [redirect_response, unavailable_response] = (Inr unavailable_response, [])
   \<and> fst (create_meeting (PStr ''Live shopping for: Shoes'') (PStr ''ap-south-1'') (PBool False)
            \<lparr>rows = [], script = [redirect_response, unavailable_response], calls = []\<rparr>)
     = Inl (HTTPError unavailable_response)"
proof -
  let ?refresh = "refresh_participant_token (PUuid (UUID 1)) (PUuid (UUID 2))"
  let ?add = "add_participant (PUuid (UUID 1)) (PStr ''Customer Support'')
                (PStr ''video_shoping'') (PStr ''customer_support'')"
  let ?meet = "create_meeting (PStr ''Live shopping for: Shoes'') (PStr ''ap-south-1'')
                 (PBool False)"
  let ?d = "PDict [(''id'', PStr ''00000000-0000-0000-0000-000000000003''),
                   (''token'', PStr ''token-A'')]"
  have m: "?refresh \<in> {?meet, ?add, ?refresh}" "?add \<in> {?meet, ?add, ?refresh}"
    "?meet \<in> {?meet, ?add, ?refresh}"
    by simp_all
  have e: "400 \<le> status_code not_found_response \<and> status_code not_found_response < 600"
    "400 \<le> status_code unavailable_response \<and> status_code unavailable_response < 600"
    by (simp_all add: not_found_response_def unavailable_response_def)
  have ok: "success join_response ?d"
    by (simp add: success_def join_response_def ok_response_def)
  have s: "session_send [redirect_response, unavailable_response] = (Inr unavailable_response, [])"
    by (simp add: session_send_def get_redirect_target_def is_redirect_def redirect_response_def
        unavailable_response_def)
  from adapter_results [OF m(1),
      where w = "\<lparr>rows = [], script = [not_found_response], calls = []\<rparr>"
        and resp = not_found_response and rest = "[]"] e(1)
  have 1: "fst (?refresh \<lparr>rows = [], script = [not_found_response], calls = []\<rparr>)
           = Inl (HTTPError not_found_response)" by simp
  from adapter_results [OF m(2),
      where w = "\<lparr>rows = [], script = [join_response], calls = []\<rparr>"
        and resp = join_response and rest = "[]" and d = ?d] ok
  have 2: "fst (?add \<lparr>rows = [], script = [join_response], calls = []\<rparr>) = Inr ?d" by simp
  from adapter_results [OF m(3),
      where w = "\<lparr>rows = [], script = [redirect_response, unavailable_response], calls = []\<rparr>"
        and final = unavailable_response and sc = "[]"] e(2) s
  have 3: "fst (?meet \<lparr>rows = [], script = [redirect_response, unavailable_response],
                         calls = []\<rparr>)
           = Inl (HTTPError unavailable_response)" by simp
  from 1 2 3 s show ?thesis by simp
qed

text \<open>
  The claim C9 says that an error is raised for every status that is not a success. An
  answer with the status 300, which is not of the class 2xx and which the session does
  not follow, and a body with \<open>data\<close> is not an error for the adapter: \<open>create_meeting\<close>
  returns its \<open>data\<close>.
\<close>

theorem adapter_multiple_choices_counterexample:
  "\<not> success \<lparr>status_code = 300, location = None,
                 body = Some (PDict [(''data'', PDict [(''id'', PStr ''m1'')])])\<rparr>
        (PDict [(''id'', PStr ''m1'')])
   \<and> fst (create_meeting (PStr ''Live shopping for: Shoes'') (PStr ''ap-south-1'') (PBool False)
           \<lparr>rows = [],
            script = [\<lparr>status_code = 300, location = None,
                       body = Some (PDict [(''data'', PDict [(''id'', PStr ''m1'')])])\<rparr>],
            calls = []\<rparr>)
     = Inr (PDict [(''id'', PStr ''m1'')])"
  by (simp add: success_def create_meeting_def fetch_def session_send_final is_redirect_def raise_for_status_def response_json_def
      subscript_def Let_def)

text \<open>
  Claim C10. When the row has no support participant, \<open>start\<close> hands one request to the session: the
  participant of the meeting of the row with the name \<open>Customer Support\<close>, the preset
  \<open>video_shoping\<close> and the external id \<open>customer_support\<close>, the same for every row and
  every caller.
\<close>

theorem start_first_join_arguments:
  assumes "get_object_or_404 k w = Inr r" and "support_user_dyte_participant_id r = None"
  shows "calls (snd (start L k w)) = calls w @
           [\<lparr>http_method = ''POST'',
             url = [PStr ''meetings/'', PUuid (dyte_meeting_id r), PStr ''/participants''],
             json = Some (PDict [(''name'', PStr ''Customer Support''),
                                 (''preset_name'', PStr ''video_shoping''),
                                 (''custom_participant_id'', PStr ''customer_support'')])\<rparr>]"
proof -
  let ?req = "\<lparr>http_method = ''POST'',
             url = [PStr ''meetings/'', PUuid (dyte_meeting_id r), PStr ''/participants''],
             json = Some (PDict [(''name'', PStr ''Customer Support''),
                                 (''preset_name'', PStr ''video_shoping''),
                                 (''custom_participant_id'', PStr ''customer_support'')])\<rparr>"
  obtain x w1 where f: "fetch ?req w = (x, w1)" by fastforce
  with fetch_world [of ?req w] have "calls w1 = calls w @ [?req]" by simp
  with f assms show ?thesis
    by (simp add: start_def add_participant_def save_def Let_def split: sum.splits)
qed

theorem start_first_join_arguments_witness:
  "get_object_or_404 1 \<lparr>rows = [example_row], script = [join_response], calls = []\<rparr>
     = Inr example_row
   \<and> support_user_dyte_participant_id example_row = None
   \<and> calls (snd (start example_lib 1
                   \<lparr>rows = [example_row], script = [join_response], calls = []\<rparr>))
       = [\<lparr>http_method = ''POST'',
           url = [PStr ''meetings/'', PUuid (UUID 1), PStr ''/participants''],
           json = Some (PDict [(''name'', PStr ''Customer Support''),
                               (''preset_name'', PStr ''video_shoping''),
                               (''custom_participant_id'', PStr ''customer_support'')])\<rparr>]"
proof -
  have h1: "get_object_or_404 1 \<lparr>rows = [example_row], script = [join_response], calls = []\<rparr>
              = Inr example_row"
    by (simp add: get_object_or_404_def example_row_def)
  have h2: "support_user_dyte_participant_id example_row = None"
    by (simp add: example_row_def)
  have m: "dyte_meeting_id example_row = UUID 1" by (simp add: example_row_def)
  from start_first_join_arguments [OF h1 h2, of example_lib] h1 h2 m show ?thesis by simp
qed

end
